theory Spec2Isabelle
  imports Main "HOL-Library.Word"
begin

unbundle bit_operations_syntax

section \<open>The recognition front end (main.go)\<close>

text \<open>
  The program is one HTTP handler, \<open>recognize\<close>, with its helpers \<open>setupResponse\<close>,
  \<open>wget\<close>, \<open>jsonError\<close>, \<open>jsonResponse\<close> and \<open>generateID\<close>. Everything it does is a call into the
  Go runtime: the file system, the HTTP client, the random source, the JSON decoder and the
  response writer. The embedding keeps the handler's control flow as it is written and makes
  the runtime explicit:
  \<^item> every call that leaves the process (\<open>rand.Read\<close>, \<open>os.Mkdir\<close>, \<open>Client.Get\<close>,
    \<open>os.Create\<close>, \<open>io.Copy\<close>, \<open>http.Post\<close>, \<open>ioutil.ReadDir\<close>) is answered by a field of
    the record \<open>env\<close>, which is given the trace of all earlier calls, so that the answer may
    depend on everything that happened before; the call and its answer are appended to the
    trace;
  \<^item> the response writer is the list of the calls made on it, in order, read the way
    the server of \<open>net/http\<close> treats them: the first \<open>WriteHeader\<close> fixes the
    status, a status code outside 100..999 makes it panic, and a status that admits no
    body makes every write fail;
  \<^item> an error value is its message; \<open>None\<close> is Go's \<open>nil\<close> error;
  \<^item> \<open>generateID\<close> returns \<open>None\<close> when it panics; a panic of the handler, which the
    server recovers, is the last entry \<open>Panic\<close> of the calls on the response writer, and
    the trace keeps what was done before it;
  \<^item> the deferred \<open>Close\<close> calls, whose results the source drops, are read off the
    trace: each call that registers one is in it.
  \<open>log.Printf\<close> is left out, and so is \<open>main\<close>, which only reads the three flags held
  in \<open>env\<close> and registers the handler.
\<close>

subsection \<open>Data\<close>

type_synonym byte = "8 word"

datatype json = JString string | JArray "json list" | JObject "(string \<times> json) list"

record recognizeRequest =
  ImageURLs :: "string list"

record darkflowRequest =
  InputDir :: string
  OutputDir :: string

record http_Request =
  Method :: string
  ReqBody :: string

record http_Response =
  StatusCode :: int
  Body :: string

text \<open>
  One entry per call into the runtime, with the arguments and the answer. \<open>RandRead n err\<close>
  is \<open>rand.Read\<close> on a buffer of \<open>n\<close> bytes; \<open>Copy path written err\<close> is \<open>io.Copy\<close> into
  the file created at \<open>path\<close>, with the bytes that reached the file.
\<close>

datatype event =
    RandRead nat "string option"
  | Mkdir string "string option"
  | Get string "string + http_Response"
  | Create string "string option"
  | Copy string string "string option"
  | Post string string json "string + http_Response"
  | ReadDir string "string + string list"

type_synonym trace = "event list"

text \<open>
  The calls the handler makes on its \<open>http.ResponseWriter\<close>: \<open>w.Header().Set(k, v)\<close>,
  \<open>w.WriteHeader(status)\<close>, and \<open>json.NewEncoder(w).Encode(payload)\<close> with the error
  it returned. \<open>Panic msg\<close> ends the calls of a handler that panicked.
\<close>

datatype w_call =
    HeaderSet string string
  | WriteHeader int
  | Encode json "string option"
  | Panic string

text \<open>A deferred \<open>Close\<close>: of the file created at a path, or of the body of an answer.\<close>

datatype close = CloseFile string | CloseBody string

type_synonym response_writer = "w_call list"

text \<open>
  The runtime. \<open>filepath_Join\<close> is the library function of this name.
  \<open>json_scan\<close> and \<open>json_Unmarshal\<close> are the two steps of \<open>Decoder.Decode\<close>: reading
  the first JSON value off the body, which gives the text of that value and what follows
  it, or an error when the body does not start with a value; and decoding the text of a
  value into the request structure, which gives the error, if any, together with the
  structure as far as it was filled.
  \<open>make_limit\<close> is the greatest length of a byte slice that \<open>make\<close> can allocate.
  \<open>io_Copy\<close> answers \<open>None\<close> when the whole body reached the file and \<open>Some (n, msg)\<close>
  when it failed after \<open>n\<close> bytes. \<open>io_Close\<close> is the error, if any, of a deferred
  \<open>Close\<close>. \<open>w_Write\<close> is the error, if any, of writing an encoded payload to the
  connection behind the response writer in its current state.
\<close>

record env =
  inputDir :: string
  outputDir :: string
  darkflowURL :: string
  filepath_Join :: "string list \<Rightarrow> string"
  json_scan :: "string \<Rightarrow> string + string \<times> string"
  json_Unmarshal :: "string \<Rightarrow> string option \<times> recognizeRequest"
  make_limit :: int
  rand_Read :: "trace \<Rightarrow> nat \<Rightarrow> byte list \<times> string option"
  os_Mkdir :: "trace \<Rightarrow> string \<Rightarrow> string option"
  client_Get :: "trace \<Rightarrow> string \<Rightarrow> string + http_Response"
  os_Create :: "trace \<Rightarrow> string \<Rightarrow> string option"
  io_Copy :: "trace \<Rightarrow> string \<Rightarrow> string \<Rightarrow> (nat \<times> string) option"
  http_Post :: "trace \<Rightarrow> string \<Rightarrow> string \<Rightarrow> json \<Rightarrow> string + http_Response"
  ioutil_ReadDir :: "trace \<Rightarrow> string \<Rightarrow> string + string list"
  io_Close :: "trace \<Rightarrow> close \<Rightarrow> string option"
  w_Write :: "response_writer \<Rightarrow> json \<Rightarrow> string option"

subsection \<open>Constants and formatting\<close>

definition MethodOptions :: string where
  "MethodOptions = ''OPTIONS''"

definition StatusOK :: int where
  "StatusOK = 200"

definition StatusBadRequest :: int where
  "StatusBadRequest = 400"

definition StatusInternalServerError :: int where
  "StatusInternalServerError = 500"

text \<open>The verb \<open>%v\<close> on an error: its message, or \<open><nil>\<close> for the nil error.\<close>

definition fmt_v :: "string option \<Rightarrow> string" where
  "fmt_v err = (case err of None \<Rightarrow> ''<nil>'' | Some msg \<Rightarrow> msg)"

text \<open>The verb \<open>%d\<close> on a loop index, which is never negative.\<close>

definition digit_char :: "nat \<Rightarrow> char" where
  "digit_char d = char_of (48 + d)"

fun fmt_d :: "nat \<Rightarrow> string" where
  "fmt_d n = (if n < 10 then [digit_char n] else fmt_d (n div 10) @ [digit_char (n mod 10)])"

declare fmt_d.simps [simp del]

definition Sprintf_d_jpg :: "nat \<Rightarrow> string" where
  "Sprintf_d_jpg i = fmt_d i @ ''.jpg''"

text \<open>The verb \<open>%v\<close> on an \<open>int\<close>.\<close>

definition fmt_int :: "int \<Rightarrow> string" where
  "fmt_int i = (if i < 0 then ''-'' @ fmt_d (nat (- i)) else fmt_d (nat i))"

text \<open>Go's integer division truncates towards zero.\<close>

definition go_quot :: "int \<Rightarrow> int \<Rightarrow> int" where
  "go_quot a b = sgn a * sgn b * (\<bar>a\<bar> div \<bar>b\<bar>)"

subsection \<open>Decoding the request\<close>

text \<open>
  \<open>json.NewDecoder(r.Body).Decode(&req)\<close> reads the first JSON value of the body and
  decodes it; it never looks at what follows that value. When no value can be read the
  structure is left as it was, empty.
\<close>

definition json_Decode :: "env \<Rightarrow> string \<Rightarrow> string option \<times> recognizeRequest" where
  "json_Decode e body =
     (case json_scan e body of
        Inl msg \<Rightarrow> (Some msg, \<lparr>ImageURLs = []\<rparr>)
      | Inr (v, rest) \<Rightarrow> json_Unmarshal e v)"

text \<open>
  A body is valid JSON when it is one JSON value, with nothing but white space (space, tab,
  line feed, carriage return) after it.
\<close>

definition json_space :: "char \<Rightarrow> bool" where
  "json_space c = (c = CHR '' '' \<or> c = CHR 0x09 \<or> c = CHR 0x0A \<or> c = CHR 0x0D)"

definition valid_JSON :: "env \<Rightarrow> string \<Rightarrow> bool" where
  "valid_JSON e body =
     (case json_scan e body of
        Inl msg \<Rightarrow> False
      | Inr (v, rest) \<Rightarrow> list_all json_space rest)"

subsection \<open>generateID\<close>

definition hextable :: string where
  "hextable = ''0123456789abcdef''"

text \<open>\<open>hex.EncodeToString\<close>: two characters per byte, high nibble first.\<close>

fun hex_EncodeToString :: "byte list \<Rightarrow> string" where
  "hex_EncodeToString [] = []"
| "hex_EncodeToString (v # src) =
     hextable ! unat (drop_bit 4 v) # hextable ! unat (v AND 0x0f) # hex_EncodeToString src"

text \<open>
  \<open>make([]byte, m)\<close> gives \<open>m\<close> zero bytes and panics when \<open>m\<close> is negative or
  more than can be allocated;
  \<open>rand.Read\<close> overwrites the buffer from the front with the bytes it obtained and its
  error is discarded; the slice expression \<open>[:len]\<close> panics when \<open>len\<close> is negative or
  beyond the string. Go's \<open>int\<close> has 64 bits: \<open>len - 1\<close> overflows only at the least
  \<open>int\<close>, where the slice expression panics as it does for every negative \<open>len\<close>.
\<close>

definition fill :: "byte list \<Rightarrow> byte list \<Rightarrow> byte list" where
  "fill buf bs = take (length buf) bs @ drop (length bs) buf"

definition generateID :: "env \<Rightarrow> trace \<Rightarrow> int \<Rightarrow> (string \<times> trace) option" where
  "generateID e tr len =
     (let m = go_quot (len - 1) 2 + 1 in
      if m < 0 \<or> make_limit e < m then None
      else
        let buf = replicate (nat m) (0 :: byte);
            (bs, err) = rand_Read e tr (nat m);
            buf = fill buf bs;
            tr = tr @ [RandRead (nat m) err];
            s = hex_EncodeToString buf
        in if len < 0 \<or> int (length s) < len then None
           else Some (take (nat len) s, tr))"

subsection \<open>Writing responses\<close>

text \<open>The status codes passed to \<open>WriteHeader\<close> so far, in order.\<close>

fun status_of :: "w_call \<Rightarrow> int list" where
  "status_of (WriteHeader status) = [status]"
| "status_of _ = []"

definition statuses :: "response_writer \<Rightarrow> int list" where
  "statuses w = concat (map status_of w)"

text \<open>
  \<open>w.WriteHeader(status)\<close> on the server's response writer. Once a header has been
  written the call is logged as superfluous and changes nothing. Otherwise the code is
  checked, and a code below 100 or above 999 panics (\<open>None\<close>); any other code
  becomes the status of the response. The codes this handler passes are 200, 400, 500 and
  the status code of an answer that \<open>http.Post\<close> returned; of the informational codes
  the HTTP client hands only 101 to its caller (it keeps the interim responses to itself),
  so the interim responses that \<open>WriteHeader\<close> can send for the other codes from 100 to
  199 are not told apart here.
\<close>

definition w_WriteHeader :: "int \<Rightarrow> response_writer \<Rightarrow> response_writer option" where
  "w_WriteHeader status w =
     (if statuses w \<noteq> [] then Some (w @ [WriteHeader status])
      else if status < 100 \<or> 999 < status then None
      else Some (w @ [WriteHeader status]))"

text \<open>
  The statuses whose responses carry a body: all but the informational ones, 204 and 304.
\<close>

definition bodyAllowedForStatus :: "int \<Rightarrow> bool" where
  "bodyAllowedForStatus status =
     (\<not> (100 \<le> status \<and> status \<le> 199) \<and> status \<noteq> 204 \<and> status \<noteq> 304)"

definition ErrBodyNotAllowed :: string where
  "ErrBodyNotAllowed = ''http: request method or response status code does not allow body''"

text \<open>
  \<open>json.NewEncoder(w).Encode(payload)\<close>: the payloads of this program (a map of strings,
  a slice of strings) always encode, so the error is that of the one \<open>Write\<close> of the
  encoded text. \<open>Write\<close> first writes the header with status 200 when none has been
  written; it then fails when the status written admits no body, and otherwise with the
  error of the connection.
\<close>

definition w_Encode :: "env \<Rightarrow> json \<Rightarrow> response_writer \<Rightarrow> string option \<times> response_writer" where
  "w_Encode e payload w =
     (let w = (if statuses w = [] then w @ [WriteHeader 200] else w);
          err = (if bodyAllowedForStatus (hd (statuses w)) then w_Write e w payload
                 else Some ErrBodyNotAllowed)
      in (err, w @ [Encode payload err]))"

definition setupResponse :: "response_writer \<Rightarrow> response_writer" where
  "setupResponse w =
     w @ [HeaderSet ''Access-Control-Allow-Origin'' ''*'',
          HeaderSet ''Access-Control-Allow-Methods'' ''POST, GET, OPTIONS, PUT, DELETE'',
          HeaderSet ''Access-Control-Allow-Headers''
            ''Accept, Content-Type, Content-Length, Accept-Encoding, X-CSRF-Token, Authorization'']"

definition invalid_code :: "int \<Rightarrow> w_call" where
  "invalid_code status = Panic (''invalid WriteHeader code '' @ fmt_int status)"

definition jsonResponse :: "env \<Rightarrow> response_writer \<Rightarrow> int \<Rightarrow> json \<Rightarrow> response_writer" where
  "jsonResponse e w status payload =
     (let w = setupResponse w in
      case w_WriteHeader status w of
        None \<Rightarrow> w @ [invalid_code status]
      | Some w \<Rightarrow>
          let (err, w) = w_Encode e payload w in
          (case err of
             Some msg \<Rightarrow>
               (case w_WriteHeader StatusInternalServerError w of
                  None \<Rightarrow> w @ [invalid_code StatusInternalServerError]
                | Some w \<Rightarrow> w)
           | None \<Rightarrow> w @ [HeaderSet ''Content-Type'' ''application/json'']))"

definition jsonError :: "env \<Rightarrow> response_writer \<Rightarrow> int \<Rightarrow> string \<Rightarrow> response_writer" where
  "jsonError e w status err = jsonResponse e w status (JObject [(''reason'', JString err)])"

subsection \<open>wget\<close>

definition wget :: "env \<Rightarrow> string \<Rightarrow> string \<Rightarrow> trace \<Rightarrow> string option \<times> trace" where
  "wget e from to tr =
     (case client_Get e tr from of
        Inl err \<Rightarrow> (Some (''could not wget image: '' @ err), tr @ [Get from (Inl err)])
      | Inr response \<Rightarrow>
          let tr = tr @ [Get from (Inr response)] in
          (case os_Create e tr to of
             Some err \<Rightarrow> (Some err, tr @ [Create to (Some err)])
           | None \<Rightarrow>
               let tr = tr @ [Create to None] in
               (case io_Copy e tr to (Body response) of
                  Some (n, err) \<Rightarrow> (Some err, tr @ [Copy to (take n (Body response)) (Some err)])
                | None \<Rightarrow> (None, tr @ [Copy to (Body response) None]))))"

subsection \<open>recognize\<close>

text \<open>The download loop of \<open>recognize\<close>: \<open>for i, img := range req.ImageURLs\<close>.\<close>

fun download_loop :: "env \<Rightarrow> string \<Rightarrow> nat \<Rightarrow> string list \<Rightarrow> trace \<Rightarrow> string option \<times> trace" where
  "download_loop e input i [] tr = (None, tr)"
| "download_loop e input i (img # imgs) tr =
     (case wget e img (filepath_Join e [input, Sprintf_d_jpg i]) tr of
        (Some err, tr) \<Rightarrow> (Some err, tr)
      | (None, tr) \<Rightarrow> download_loop e input (Suc i) imgs tr)"

text \<open>
  The collection loop: \<open>for i := 0; i < n; i++ { imgs[i] = filepath.Join("/output", id,
  files[i].Name()) }\<close>, on the slice \<open>imgs\<close> of \<open>n\<close> empty strings.
\<close>

function collect_loop :: "env \<Rightarrow> string \<Rightarrow> string list \<Rightarrow> nat \<Rightarrow> string list \<Rightarrow> string list" where
  "collect_loop e id' files i imgs =
     (if i < length files
      then collect_loop e id' files (i + 1) (imgs[i := filepath_Join e [''/output'', id', files ! i]])
      else imgs)"
  by pat_completeness auto
termination
  by (relation "measure (\<lambda>(e, id', files, i, imgs). length files - i)") auto

declare collect_loop.simps [simp del]

text \<open>
  Encoding a \<open>darkflowRequest\<close> into the buffer: an object of its two tagged fields.
  Two strings always encode, so the error is never returned.
\<close>

definition Encode_darkflowRequest :: "darkflowRequest \<Rightarrow> string + json" where
  "Encode_darkflowRequest d =
     Inr (JObject [(''input_dir'', JString (InputDir d)), (''output_dir'', JString (OutputDir d))])"

text \<open>
  The handler, from the response writer it is given and the request to the calls made on
  the response writer and the trace, both as they are when the handler ends. It ends on
  every request. It can panic at two places, the allocation in \<open>generateID\<close> and a
  \<open>WriteHeader\<close> with an invalid code in \<open>jsonResponse\<close>, each of them the last thing
  it does; the panic is then the last call recorded on the response writer.
\<close>

definition recognize :: "env \<Rightarrow> response_writer \<Rightarrow> http_Request \<Rightarrow> (response_writer \<times> trace) option" where
  "recognize e w r =
     (if Method r = MethodOptions then Some (setupResponse w, [])
      else
        let (err, req) = json_Decode e (ReqBody r) in
        if err \<noteq> None \<or> length (ImageURLs req) = 0
        then Some (jsonError e w StatusBadRequest (''invalid json body: '' @ fmt_v err), [])
        else
          (case generateID e [] 8 of
             None \<Rightarrow> Some (w @ [Panic ''runtime error: makeslice: len out of range''], [])
           | Some (id', tr) \<Rightarrow>
               let dir = filepath_Join e [inputDir e, id'];
                   err = os_Mkdir e tr dir;
                   tr = tr @ [Mkdir dir err]
               in case err of
                    Some msg \<Rightarrow>
                      Some (jsonError e w StatusInternalServerError
                              (''could not create input dir: '' @ msg), tr)
                  | None \<Rightarrow>
                      let input = filepath_Join e [inputDir e, id'] in
                      (case download_loop e input 0 (ImageURLs req) tr of
                         (Some err, tr) \<Rightarrow> Some (jsonError e w StatusInternalServerError err, tr)
                       | (None, tr) \<Rightarrow>
                           let output = filepath_Join e [outputDir e, id'] in
                           (case Encode_darkflowRequest \<lparr>InputDir = input, OutputDir = output\<rparr> of
                              Inl msg \<Rightarrow>
                                Some (jsonError e w StatusInternalServerError
                                        (''could not encode darkflow request: '' @ msg), tr)
                            | Inr buf \<Rightarrow>
                                let res = http_Post e tr (darkflowURL e) ''application/json'' buf;
                                    tr = tr @ [Post (darkflowURL e) ''application/json'' buf res]
                                in (case res of
                                      Inl msg \<Rightarrow>
                                        Some (jsonError e w StatusInternalServerError
                                                (''could not call darkflow: '' @ msg), tr)
                                    | Inr resp \<Rightarrow>
                                        if StatusCode resp \<noteq> StatusOK
                                        then Some (jsonError e w (StatusCode resp)
                                                     ''darkflow returned error'', tr)
                                        else
                                          let res = ioutil_ReadDir e tr output;
                                              tr = tr @ [ReadDir output res]
                                          in (case res of
                                                Inl msg \<Rightarrow>
                                                  Some (jsonError e w StatusInternalServerError
                                                          (''could not read output dir: '' @ msg), tr)
                                              | Inr files \<Rightarrow>
                                                  let n = length files;
                                                      imgs = replicate n [];
                                                      imgs = collect_loop e id' files 0 imgs
                                                  in Some (jsonResponse e w StatusOK
                                                             (JArray (map JString imgs)), tr)))))))"

subsection \<open>Reading a run\<close>

text \<open>
  What a run did is read off its trace and off the calls on the response writer:
  the URLs requested, the files that were written completely, the directories whose
  creation was asked for, the requests posted, the calls that returned an error, and the
  payloads handed to the encoder.
\<close>

fun get_url :: "event \<Rightarrow> string list" where
  "get_url (Get url res) = [url]"
| "get_url _ = []"

definition gets :: "trace \<Rightarrow> string list" where
  "gets tr = concat (map get_url tr)"

fun saved_file :: "event \<Rightarrow> (string \<times> string) list" where
  "saved_file (Copy path written None) = [(path, written)]"
| "saved_file _ = []"

definition saved :: "trace \<Rightarrow> (string \<times> string) list" where
  "saved tr = concat (map saved_file tr)"

fun mkdir_path :: "event \<Rightarrow> string list" where
  "mkdir_path (Mkdir path res) = [path]"
| "mkdir_path _ = []"

definition mkdirs :: "trace \<Rightarrow> string list" where
  "mkdirs tr = concat (map mkdir_path tr)"

fun post_request :: "event \<Rightarrow> (string \<times> string \<times> json) list" where
  "post_request (Post url ctype body res) = [(url, ctype, body)]"
| "post_request _ = []"

definition posts :: "trace \<Rightarrow> (string \<times> string \<times> json) list" where
  "posts tr = concat (map post_request tr)"

fun readdir_path :: "event \<Rightarrow> string list" where
  "readdir_path (ReadDir path res) = [path]"
| "readdir_path _ = []"

definition readdirs :: "trace \<Rightarrow> string list" where
  "readdirs tr = concat (map readdir_path tr)"

fun failed :: "event \<Rightarrow> bool" where
  "failed (RandRead n err) = (err \<noteq> None)"
| "failed (Mkdir path err) = (err \<noteq> None)"
| "failed (Get url res) = isl res"
| "failed (Create path err) = (err \<noteq> None)"
| "failed (Copy path written err) = (err \<noteq> None)"
| "failed (Post url ctype body res) = isl res"
| "failed (ReadDir path res) = isl res"

fun is_fetch :: "event \<Rightarrow> bool" where
  "is_fetch (Get url res) = True"
| "is_fetch (Create path err) = True"
| "is_fetch (Copy path written err) = True"
| "is_fetch _ = False"


fun payload_of :: "w_call \<Rightarrow> json list" where
  "payload_of (Encode payload err) = [payload]"
| "payload_of _ = []"

definition payloads :: "response_writer \<Rightarrow> json list" where
  "payloads w = concat (map payload_of w)"

text \<open>The payloads whose write the response writer accepted.\<close>

fun written_by :: "w_call \<Rightarrow> json list" where
  "written_by (Encode payload None) = [payload]"
| "written_by _ = []"

definition written :: "response_writer \<Rightarrow> json list" where
  "written w = concat (map written_by w)"

text \<open>
  The status of the response: the one of the first \<open>WriteHeader\<close>, if any; the later
  ones are superfluous.
\<close>

definition sent_status :: "response_writer \<Rightarrow> int option" where
  "sent_status w = (case statuses w of [] \<Rightarrow> None | status # later \<Rightarrow> Some status)"





text \<open>
  The trace of fetching, one after the other and without failure, the URLs of a list into
  the files numbered from \<open>i\<close> in the directory \<open>input\<close>; each URL comes with the
  response it was answered with.
\<close>

fun fetched :: "env \<Rightarrow> string \<Rightarrow> nat \<Rightarrow> (string \<times> http_Response) list \<Rightarrow> trace" where
  "fetched e input i [] = []"
| "fetched e input i ((img, response) # rest) =
     [Get img (Inr response),
      Create (filepath_Join e [input, Sprintf_d_jpg i]) None,
      Copy (filepath_Join e [input, Sprintf_d_jpg i]) (Body response) None]
     @ fetched e input (Suc i) rest"

subsection \<open>A concrete runtime\<close>

text \<open>
  The runs evaluated below use this runtime. \<open>join_slash\<close> separates the elements by a
  slash, which is what \<open>filepath.Join\<close> returns on elements that are already clean. The
  decoder knows the three values below and the body made of the first of them followed
  by other text; \<open>make\<close> allocates up to \<open>2 ^ 48\<close> bytes; the random source yields the
  bytes \<open>de ad be ef\<close>; one host refuses the connection and one URL is answered with
  status 404; the recognition service answers 200 and leaves three files; every \<open>Close\<close>
  succeeds and so does every write to the client.
\<close>

fun join_slash :: "string list \<Rightarrow> string" where
  "join_slash [] = []"
| "join_slash [x] = x"
| "join_slash (x # y # ys) = x @ ''/'' @ join_slash (y # ys)"

definition value_two :: string where
  \<open>value_two = ''{"image_urls": ["http://a/cat.png", "http://a/missing"]}''\<close>

definition value_three :: string where
  \<open>value_three =
     ''{"image_urls": ["http://a/cat.png", "http://down/dog.png", "http://a/missing"]}''\<close>

definition scan_demo :: "string \<Rightarrow> string + string \<times> string" where
  "scan_demo body =
     (if body = value_two then Inr (value_two, [])
      else if body = value_two @ '' trailing garbage'' then Inr (value_two, '' trailing garbage'')
      else if body = value_three then Inr (value_three, [])
      else if body = ''{}'' then Inr (''{}'', [])
      else Inl ''invalid character'')"

definition unmarshal_demo :: "string \<Rightarrow> string option \<times> recognizeRequest" where
  "unmarshal_demo v =
     (if v = value_two
      then (None, \<lparr>ImageURLs = [''http://a/cat.png'', ''http://a/missing'']\<rparr>)
      else if v = value_three
      then (None, \<lparr>ImageURLs = [''http://a/cat.png'', ''http://down/dog.png'', ''http://a/missing'']\<rparr>)
      else (None, \<lparr>ImageURLs = []\<rparr>))"

definition get_demo :: "trace \<Rightarrow> string \<Rightarrow> string + http_Response" where
  "get_demo tr url =
     (if url = ''http://down/dog.png'' then Inl ''connection refused''
      else if url = ''http://a/missing'' then Inr \<lparr>StatusCode = 404, Body = ''not found''\<rparr>
      else Inr \<lparr>StatusCode = 200, Body = ''cat''\<rparr>)"

definition env_demo :: env where
  "env_demo =
     \<lparr>inputDir = ''/input'',
      outputDir = ''/output'',
      darkflowURL = ''http://darkflow:8000'',
      filepath_Join = join_slash,
      json_scan = scan_demo,
      json_Unmarshal = unmarshal_demo,
      make_limit = 2 ^ 48,
      rand_Read = (\<lambda>tr n. ([0xde, 0xad, 0xbe, 0xef], None)),
      os_Mkdir = (\<lambda>tr path. None),
      client_Get = get_demo,
      os_Create = (\<lambda>tr path. None),
      io_Copy = (\<lambda>tr path body. None),
      http_Post = (\<lambda>tr url ctype body. Inr \<lparr>StatusCode = 200, Body = ''ok''\<rparr>),
      ioutil_ReadDir = (\<lambda>tr path. Inr [''0.jpg'', ''1.jpg'', ''labels.txt'']),
      io_Close = (\<lambda>tr c. None),
      w_Write = (\<lambda>w payload. None)\<rparr>"

definition req_two :: http_Request where
  "req_two = \<lparr>Method = ''POST'', ReqBody = value_two\<rparr>"

definition req_three :: http_Request where
  "req_three = \<lparr>Method = ''POST'', ReqBody = value_three\<rparr>"

definition req_empty :: http_Request where
  "req_empty = \<lparr>Method = ''POST'', ReqBody = ''{}''\<rparr>"

text \<open>The request of \<open>req_two\<close> with other text after its value.\<close>

definition req_trailing :: http_Request where
  "req_trailing = \<lparr>Method = ''POST'', ReqBody = value_two @ '' trailing garbage''\<rparr>"

text \<open>The recognition service answers 202.\<close>

definition env_accepted :: env where
  "env_accepted =
     env_demo\<lparr>http_Post := (\<lambda>tr url ctype body. Inr \<lparr>StatusCode = 202, Body = ''queued''\<rparr>)\<rparr>"

text \<open>The recognition service answers 204, a status without body.\<close>

definition env_nocontent :: env where
  "env_nocontent =
     env_demo\<lparr>http_Post := (\<lambda>tr url ctype body. Inr \<lparr>StatusCode = 204, Body = []\<rparr>)\<rparr>"

text \<open>The recognition service answers with the status line \<open>HTTP/1.1 099\<close>.\<close>

definition env_badcode :: env where
  "env_badcode =
     env_demo\<lparr>http_Post := (\<lambda>tr url ctype body. Inr \<lparr>StatusCode = 99, Body = []\<rparr>)\<rparr>"

text \<open>Both flags name the same directory.\<close>

definition env_same :: env where
  "env_same = env_demo\<lparr>inputDir := ''/data'', outputDir := ''/data''\<rparr>"




text \<open>The calls on the response writer and the trace of \<open>req_two\<close> on \<open>env_demo\<close>.\<close>

definition w_two :: response_writer where
  "w_two =
     [HeaderSet ''Access-Control-Allow-Origin'' ''*'',
      HeaderSet ''Access-Control-Allow-Methods'' ''POST, GET, OPTIONS, PUT, DELETE'',
      HeaderSet ''Access-Control-Allow-Headers''
        ''Accept, Content-Type, Content-Length, Accept-Encoding, X-CSRF-Token, Authorization'',
      WriteHeader 200,
      Encode (JArray [JString ''/output/deadbeef/0.jpg'', JString ''/output/deadbeef/1.jpg'',
                      JString ''/output/deadbeef/labels.txt'']) None,
      HeaderSet ''Content-Type'' ''application/json'']"

definition tr_two :: trace where
  "tr_two =
     [RandRead 4 None,
      Mkdir ''/input/deadbeef'' None,
      Get ''http://a/cat.png'' (Inr \<lparr>StatusCode = 200, Body = ''cat''\<rparr>),
      Create ''/input/deadbeef/0.jpg'' None,
      Copy ''/input/deadbeef/0.jpg'' ''cat'' None,
      Get ''http://a/missing'' (Inr \<lparr>StatusCode = 404, Body = ''not found''\<rparr>),
      Create ''/input/deadbeef/1.jpg'' None,
      Copy ''/input/deadbeef/1.jpg'' ''not found'' None,
      Post ''http://darkflow:8000'' ''application/json''
        (JObject [(''input_dir'', JString ''/input/deadbeef''),
                  (''output_dir'', JString ''/output/deadbeef'')])
        (Inr \<lparr>StatusCode = 200, Body = ''ok''\<rparr>),
      ReadDir ''/output/deadbeef'' (Inr [''0.jpg'', ''1.jpg'', ''labels.txt''])]"

text \<open>
  The same for \<open>req_three\<close>, whose second URL cannot be fetched.
\<close>

definition w_three :: response_writer where
  "w_three =
     [HeaderSet ''Access-Control-Allow-Origin'' ''*'',
      HeaderSet ''Access-Control-Allow-Methods'' ''POST, GET, OPTIONS, PUT, DELETE'',
      HeaderSet ''Access-Control-Allow-Headers''
        ''Accept, Content-Type, Content-Length, Accept-Encoding, X-CSRF-Token, Authorization'',
      WriteHeader 500,
      Encode (JObject [(''reason'', JString ''could not wget image: connection refused'')]) None,
      HeaderSet ''Content-Type'' ''application/json'']"

definition tr_three :: trace where
  "tr_three =
     [RandRead 4 None,
      Mkdir ''/input/deadbeef'' None,
      Get ''http://a/cat.png'' (Inr \<lparr>StatusCode = 200, Body = ''cat''\<rparr>),
      Create ''/input/deadbeef/0.jpg'' None,
      Copy ''/input/deadbeef/0.jpg'' ''cat'' None,
      Get ''http://down/dog.png'' (Inl ''connection refused'')]"

text \<open>The same for \<open>req_two\<close> when the recognition service answers 202.\<close>

definition w_accepted :: response_writer where
  "w_accepted =
     [HeaderSet ''Access-Control-Allow-Origin'' ''*'',
      HeaderSet ''Access-Control-Allow-Methods'' ''POST, GET, OPTIONS, PUT, DELETE'',
      HeaderSet ''Access-Control-Allow-Headers''
        ''Accept, Content-Type, Content-Length, Accept-Encoding, X-CSRF-Token, Authorization'',
      WriteHeader 202,
      Encode (JObject [(''reason'', JString ''darkflow returned error'')]) None,
      HeaderSet ''Content-Type'' ''application/json'']"

definition tr_accepted :: trace where
  "tr_accepted =
     [RandRead 4 None,
      Mkdir ''/input/deadbeef'' None,
      Get ''http://a/cat.png'' (Inr \<lparr>StatusCode = 200, Body = ''cat''\<rparr>),
      Create ''/input/deadbeef/0.jpg'' None,
      Copy ''/input/deadbeef/0.jpg'' ''cat'' None,
      Get ''http://a/missing'' (Inr \<lparr>StatusCode = 404, Body = ''not found''\<rparr>),
      Create ''/input/deadbeef/1.jpg'' None,
      Copy ''/input/deadbeef/1.jpg'' ''not found'' None,
      Post ''http://darkflow:8000'' ''application/json''
        (JObject [(''input_dir'', JString ''/input/deadbeef''),
                  (''output_dir'', JString ''/output/deadbeef'')])
        (Inr \<lparr>StatusCode = 202, Body = ''queued''\<rparr>)]"

text \<open>
  The same when the recognition service answers 204: the write of the reason is refused
  and the second \<open>WriteHeader\<close> comes after the status has been written.
\<close>

definition w_nocontent :: response_writer where
  "w_nocontent =
     [HeaderSet ''Access-Control-Allow-Origin'' ''*'',
      HeaderSet ''Access-Control-Allow-Methods'' ''POST, GET, OPTIONS, PUT, DELETE'',
      HeaderSet ''Access-Control-Allow-Headers''
        ''Accept, Content-Type, Content-Length, Accept-Encoding, X-CSRF-Token, Authorization'',
      WriteHeader 204,
      Encode (JObject [(''reason'', JString ''darkflow returned error'')]) (Some ErrBodyNotAllowed),
      WriteHeader 500]"

definition tr_nocontent :: trace where
  "tr_nocontent =
     [RandRead 4 None,
      Mkdir ''/input/deadbeef'' None,
      Get ''http://a/cat.png'' (Inr \<lparr>StatusCode = 200, Body = ''cat''\<rparr>),
      Create ''/input/deadbeef/0.jpg'' None,
      Copy ''/input/deadbeef/0.jpg'' ''cat'' None,
      Get ''http://a/missing'' (Inr \<lparr>StatusCode = 404, Body = ''not found''\<rparr>),
      Create ''/input/deadbeef/1.jpg'' None,
      Copy ''/input/deadbeef/1.jpg'' ''not found'' None,
      Post ''http://darkflow:8000'' ''application/json''
        (JObject [(''input_dir'', JString ''/input/deadbeef''),
                  (''output_dir'', JString ''/output/deadbeef'')])
        (Inr \<lparr>StatusCode = 204, Body = []\<rparr>)]"

text \<open>
  The same when the recognition service answers with the code 99: \<open>WriteHeader\<close>
  panics and nothing is sent.
\<close>

definition w_badcode :: response_writer where
  "w_badcode =
     [HeaderSet ''Access-Control-Allow-Origin'' ''*'',
      HeaderSet ''Access-Control-Allow-Methods'' ''POST, GET, OPTIONS, PUT, DELETE'',
      HeaderSet ''Access-Control-Allow-Headers''
        ''Accept, Content-Type, Content-Length, Accept-Encoding, X-CSRF-Token, Authorization'',
      Panic ''invalid WriteHeader code 99'']"

definition tr_badcode :: trace where
  "tr_badcode =
     [RandRead 4 None,
      Mkdir ''/input/deadbeef'' None,
      Get ''http://a/cat.png'' (Inr \<lparr>StatusCode = 200, Body = ''cat''\<rparr>),
      Create ''/input/deadbeef/0.jpg'' None,
      Copy ''/input/deadbeef/0.jpg'' ''cat'' None,
      Get ''http://a/missing'' (Inr \<lparr>StatusCode = 404, Body = ''not found''\<rparr>),
      Create ''/input/deadbeef/1.jpg'' None,
      Copy ''/input/deadbeef/1.jpg'' ''not found'' None,
      Post ''http://darkflow:8000'' ''application/json''
        (JObject [(''input_dir'', JString ''/input/deadbeef''),
                  (''output_dir'', JString ''/output/deadbeef'')])
        (Inr \<lparr>StatusCode = 99, Body = []\<rparr>)]"



section \<open>Auxiliary facts\<close>

subsection \<open>Hexadecimal encoding and the collection loop\<close>





lemma length_hex: "length (hex_EncodeToString bs) = 2 * length bs"
  by (induction bs) simp_all


lemma length_fill: "length (fill buf bs) = length buf"
  by (simp add: fill_def)


lemma go_quot_pos: "0 \<le> a \<Longrightarrow> go_quot a 2 = a div 2"
  by (cases "a = 0") (simp_all add: go_quot_def sgn_if)

lemma collect_loop_eq:
  "i \<le> length files \<Longrightarrow> length imgs = length files \<Longrightarrow>
   collect_loop e id' files i imgs =
     take i imgs @ map (\<lambda>f. filepath_Join e [''/output'', id', f]) (drop i files)"
proof (induction e id' files i imgs rule: collect_loop.induct)
  case (1 e id' files i imgs)
  show ?case
  proof (cases "i < length files")
    case True
    then have "collect_loop e id' files i imgs =
        collect_loop e id' files (i + 1) (imgs[i := filepath_Join e [''/output'', id', files ! i]])"
      by (subst collect_loop.simps) simp
    also have "\<dots> = take (i + 1) (imgs[i := filepath_Join e [''/output'', id', files ! i]]) @
        map (\<lambda>f. filepath_Join e [''/output'', id', f]) (drop (i + 1) files)"
      using True "1.prems" by (intro "1.IH") simp_all
    also have "\<dots> = take i imgs @ map (\<lambda>f. filepath_Join e [''/output'', id', f]) (drop i files)"
      using True "1.prems"
      by (simp add: take_Suc_conv_app_nth Cons_nth_drop_Suc [symmetric])
    finally show ?thesis .
  next
    case False
    with "1.prems" show ?thesis by (subst collect_loop.simps) simp
  qed
qed

subsection \<open>Traces of the fetcher\<close>

lemma gets_append [simp]: "gets (a @ b) = gets a @ gets b"
  by (simp add: gets_def)
lemma saved_append [simp]: "saved (a @ b) = saved a @ saved b"
  by (simp add: saved_def)
lemma mkdirs_append [simp]: "mkdirs (a @ b) = mkdirs a @ mkdirs b"
  by (simp add: mkdirs_def)
lemma posts_append [simp]: "posts (a @ b) = posts a @ posts b"
  by (simp add: posts_def)
lemma readdirs_append [simp]: "readdirs (a @ b) = readdirs a @ readdirs b"
  by (simp add: readdirs_def)
lemma gets_Nil [simp]: "gets [] = []" by (simp add: gets_def)
lemma gets_Cons [simp]: "gets (ev # tr) = get_url ev @ gets tr" by (simp add: gets_def)
lemma saved_Nil [simp]: "saved [] = []" by (simp add: saved_def)
lemma saved_Cons [simp]: "saved (ev # tr) = saved_file ev @ saved tr" by (simp add: saved_def)
lemma mkdirs_Nil [simp]: "mkdirs [] = []" by (simp add: mkdirs_def)
lemma mkdirs_Cons [simp]: "mkdirs (ev # tr) = mkdir_path ev @ mkdirs tr" by (simp add: mkdirs_def)
lemma posts_Nil [simp]: "posts [] = []" by (simp add: posts_def)
lemma posts_Cons [simp]: "posts (ev # tr) = post_request ev @ posts tr" by (simp add: posts_def)
lemma readdirs_Nil [simp]: "readdirs [] = []" by (simp add: readdirs_def)
lemma readdirs_Cons [simp]: "readdirs (ev # tr) = readdir_path ev @ readdirs tr" by (simp add: readdirs_def)

lemma wget_ok:
  assumes "wget e from to tr = (None, tr')"
  shows "\<exists>response. client_Get e tr from = Inr response \<and>
           tr' = tr @ [Get from (Inr response), Create to None, Copy to (Body response) None]"
  using assms by (auto simp: wget_def Let_def split: sum.splits option.splits prod.splits)

lemma wget_fail:
  assumes "wget e from to tr = (Some err, tr')"
  shows "\<exists>fl. tr' = tr @ fl \<and> fl \<noteq> [] \<and> gets fl = [from] \<and> saved fl = [] \<and> posts fl = [] \<and>
           mkdirs fl = [] \<and> readdirs fl = [] \<and> (\<forall>ev \<in> set fl. is_fetch ev) \<and> failed (last fl)"
  using assms by (auto simp: wget_def Let_def split: sum.splits option.splits prod.splits)

lemma download_loop_ok:
  "download_loop e input i imgs tr = (None, tr') \<Longrightarrow>
   \<exists>rs. length rs = length imgs \<and> tr' = tr @ fetched e input i (zip imgs rs)"
proof (induction imgs arbitrary: i tr)
  case Nil
  then show ?case by simp
next
  case (Cons img imgs)
  from Cons.prems obtain tr1 where
    w: "wget e img (filepath_Join e [input, Sprintf_d_jpg i]) tr = (None, tr1)" and
    l: "download_loop e input (Suc i) imgs tr1 = (None, tr')"
    by (auto split: prod.splits option.splits)
  from wget_ok [OF w] obtain response where
    tr1: "tr1 = tr @ [Get img (Inr response), Create (filepath_Join e [input, Sprintf_d_jpg i]) None,
                      Copy (filepath_Join e [input, Sprintf_d_jpg i]) (Body response) None]"
    by blast
  from Cons.IH [OF l] obtain rs where
    rs: "length rs = length imgs" "tr' = tr1 @ fetched e input (Suc i) (zip imgs rs)"
    by blast
  have "length (response # rs) = length (img # imgs) \<and>
        tr' = tr @ fetched e input i (zip (img # imgs) (response # rs))"
    using rs tr1 by simp
  then show ?case by blast
qed

lemma download_loop_fail:
  "download_loop e input i imgs tr = (Some err, tr') \<Longrightarrow>
   \<exists>j rs fl. j < length imgs \<and> length rs = j \<and>
     tr' = tr @ fetched e input i (zip (take j imgs) rs) @ fl \<and>
     fl \<noteq> [] \<and> gets fl = [imgs ! j] \<and> saved fl = [] \<and> posts fl = [] \<and> mkdirs fl = [] \<and>
     readdirs fl = [] \<and> (\<forall>ev \<in> set fl. is_fetch ev) \<and> failed (last fl)"
proof (induction imgs arbitrary: i tr)
  case Nil
  then show ?case by simp
next
  case (Cons img imgs)
  let ?to = "filepath_Join e [input, Sprintf_d_jpg i]"
  obtain res tr1 where w: "wget e img ?to tr = (res, tr1)"
    by (cases "wget e img ?to tr")
  show ?case
  proof (cases res)
    case (Some err1)
    with w Cons.prems have eq: "err1 = err" "tr1 = tr'"
      by simp_all
    from wget_fail [OF w [unfolded Some]] obtain fl where
      fl: "tr1 = tr @ fl" "fl \<noteq> []" "gets fl = [img]" "saved fl = []" "posts fl = []" "mkdirs fl = []"
        "readdirs fl = []" "\<forall>ev \<in> set fl. is_fetch ev" "failed (last fl)"
      by blast
    have "0 < length (img # imgs) \<and> length ([] :: http_Response list) = 0 \<and>
          tr' = tr @ fetched e input i (zip (take 0 (img # imgs)) []) @ fl \<and>
          fl \<noteq> [] \<and> gets fl = [(img # imgs) ! 0] \<and> saved fl = [] \<and> posts fl = [] \<and> mkdirs fl = [] \<and>
          readdirs fl = [] \<and> (\<forall>ev \<in> set fl. is_fetch ev) \<and> failed (last fl)"
      using fl eq by simp
    then show ?thesis by blast
  next
    case None
    with w Cons.prems have l: "download_loop e input (Suc i) imgs tr1 = (Some err, tr')"
      by simp
    from wget_ok [OF w [unfolded None]] obtain response where
      tr1: "tr1 = tr @ [Get img (Inr response), Create ?to None, Copy ?to (Body response) None]"
      by blast
    from Cons.IH [OF l] obtain j rs fl where
      j: "j < length imgs" "length rs = j"
        "tr' = tr1 @ fetched e input (Suc i) (zip (take j imgs) rs) @ fl"
        "fl \<noteq> []" "gets fl = [imgs ! j]" "saved fl = []" "posts fl = []" "mkdirs fl = []"
        "readdirs fl = []" "\<forall>ev \<in> set fl. is_fetch ev" "failed (last fl)"
      by blast
    have "Suc j < length (img # imgs) \<and> length (response # rs) = Suc j \<and>
          tr' = tr @ fetched e input i (zip (take (Suc j) (img # imgs)) (response # rs)) @ fl \<and>
          fl \<noteq> [] \<and> gets fl = [(img # imgs) ! Suc j] \<and> saved fl = [] \<and> posts fl = [] \<and> mkdirs fl = [] \<and>
          readdirs fl = [] \<and> (\<forall>ev \<in> set fl. is_fetch ev) \<and> failed (last fl)"
      using j tr1 by simp
    then show ?thesis by blast
  qed
qed

subsection \<open>The ID generator\<close>

lemma generateID_pos:
  assumes "1 \<le> n" and "(n - 1) div 2 + 1 \<le> make_limit e"
  shows "generateID e tr n =
           Some (take (nat n) (hex_EncodeToString
                   (fill (replicate (nat ((n - 1) div 2 + 1)) 0) (fst (rand_Read e tr (nat ((n - 1) div 2 + 1)))))),
                 tr @ [RandRead (nat ((n - 1) div 2 + 1)) (snd (rand_Read e tr (nat ((n - 1) div 2 + 1))))])"
proof -
  have q: "go_quot (n - 1) 2 = (n - 1) div 2"
    using assms by (simp add: go_quot_pos)
  have m: "0 \<le> (n - 1) div 2 + 1" "n \<le> 2 * ((n - 1) div 2 + 1)"
    using assms by presburger+
  show ?thesis
    using assms m
    by (simp add: generateID_def q Let_def length_hex length_fill split: prod.splits)
qed

lemma generateID_8:
  assumes "4 \<le> make_limit e"
  shows "generateID e tr 8 =
     Some (hex_EncodeToString (fill (replicate 4 0) (fst (rand_Read e tr 4))),
           tr @ [RandRead 4 (snd (rand_Read e tr 4))])"
proof -
  have "length (hex_EncodeToString (fill (replicate 4 0) (fst (rand_Read e tr 4)))) = 8"
    by (simp add: length_hex length_fill)
  then show ?thesis
    using assms by (simp add: generateID_pos [of 8])
qed

lemma generateID_8_None:
  assumes "make_limit e < 4"
  shows "generateID e tr 8 = None"
  using assms by (simp add: generateID_def go_quot_pos Let_def)

subsection \<open>The branches of the handler\<close>

lemma collect_loop_map:
  "collect_loop e id' files 0 (replicate (length files) []) =
     map (\<lambda>f. filepath_Join e [''/output'', id', f]) files"
  using collect_loop_eq [of 0 files "replicate (length files) []" e id'] by simp

lemma recognize_bad:
  assumes "Method r \<noteq> MethodOptions" and "json_Decode e (ReqBody r) = (derr, req)"
    and "derr \<noteq> None \<or> ImageURLs req = []"
  shows "recognize e w r =
           Some (jsonError e w StatusBadRequest (''invalid json body: '' @ fmt_v derr), [])"
  using assms by (simp add: recognize_def)

lemma recognize_mkdir_failed:
  assumes "Method r \<noteq> MethodOptions" and "json_Decode e (ReqBody r) = (None, req)"
    and "ImageURLs req \<noteq> []"
    and "generateID e [] 8 = Some (id', tr0)"
    and "os_Mkdir e tr0 (filepath_Join e [inputDir e, id']) = Some msg"
  shows "recognize e w r =
           Some (jsonError e w StatusInternalServerError (''could not create input dir: '' @ msg),
                 tr0 @ [Mkdir (filepath_Join e [inputDir e, id']) (Some msg)])"
  using assms by (simp add: recognize_def Let_def)

lemma recognize_fetch_failed:
  assumes "Method r \<noteq> MethodOptions" and "json_Decode e (ReqBody r) = (None, req)"
    and "ImageURLs req \<noteq> []"
    and "generateID e [] 8 = Some (id', tr0)"
    and "os_Mkdir e tr0 (filepath_Join e [inputDir e, id']) = None"
    and "download_loop e (filepath_Join e [inputDir e, id']) 0 (ImageURLs req)
           (tr0 @ [Mkdir (filepath_Join e [inputDir e, id']) None]) = (Some err, tr2)"
  shows "recognize e w r = Some (jsonError e w StatusInternalServerError err, tr2)"
  using assms by (simp add: recognize_def Let_def)

lemma recognize_fetched:
  assumes "Method r \<noteq> MethodOptions" and "json_Decode e (ReqBody r) = (None, req)"
    and "ImageURLs req \<noteq> []"
    and "generateID e [] 8 = Some (id', tr0)"
    and "os_Mkdir e tr0 (filepath_Join e [inputDir e, id']) = None"
    and "download_loop e (filepath_Join e [inputDir e, id']) 0 (ImageURLs req)
           (tr0 @ [Mkdir (filepath_Join e [inputDir e, id']) None]) = (None, tr2)"
    and "http_Post e tr2 (darkflowURL e) ''application/json''
           (JObject [(''input_dir'', JString (filepath_Join e [inputDir e, id'])),
                     (''output_dir'', JString (filepath_Join e [outputDir e, id']))]) = res"
    and "tr3 = tr2 @ [Post (darkflowURL e) ''application/json''
           (JObject [(''input_dir'', JString (filepath_Join e [inputDir e, id'])),
                     (''output_dir'', JString (filepath_Join e [outputDir e, id']))]) res]"
  shows "recognize e w r =
     (case res of
        Inl msg \<Rightarrow>
          Some (jsonError e w StatusInternalServerError (''could not call darkflow: '' @ msg), tr3)
      | Inr resp \<Rightarrow>
          if StatusCode resp \<noteq> StatusOK
          then Some (jsonError e w (StatusCode resp) ''darkflow returned error'', tr3)
          else (case ioutil_ReadDir e tr3 (filepath_Join e [outputDir e, id']) of
                  Inl msg \<Rightarrow>
                    Some (jsonError e w StatusInternalServerError
                            (''could not read output dir: '' @ msg),
                          tr3 @ [ReadDir (filepath_Join e [outputDir e, id']) (Inl msg)])
                | Inr files \<Rightarrow>
                    Some (jsonResponse e w StatusOK
                            (JArray (map (\<lambda>f. JString (filepath_Join e [''/output'', id', f])) files)),
                          tr3 @ [ReadDir (filepath_Join e [outputDir e, id']) (Inr files)])))"
  using assms
  by (simp add: recognize_def Let_def Encode_darkflowRequest_def collect_loop_map comp_def
        split: sum.splits)

lemma recognize_cases [consumes 2, case_names bad no_id mkdir_failed fetch_failed post_failed
    post_status readdir_failed success]:
  fixes e :: env and w :: response_writer and r :: http_Request
  assumes "Method r \<noteq> MethodOptions" and "json_Decode e (ReqBody r) = (derr, req)"
  obtains
    (bad) "derr \<noteq> None \<or> ImageURLs req = []"
      "recognize e w r =
         Some (jsonError e w StatusBadRequest (''invalid json body: '' @ fmt_v derr), [])"
  | (no_id) "derr = None" "ImageURLs req \<noteq> []"
      "generateID e [] 8 = None"
      "recognize e w r = Some (w @ [Panic ''runtime error: makeslice: len out of range''], [])"
  | (mkdir_failed) id' rerr msg where
      "derr = None" "ImageURLs req \<noteq> []"
      "generateID e [] 8 = Some (id', [RandRead 4 rerr])"
      "recognize e w r =
         Some (jsonError e w StatusInternalServerError (''could not create input dir: '' @ msg),
               [RandRead 4 rerr, Mkdir (filepath_Join e [inputDir e, id']) (Some msg)])"
  | (fetch_failed) id' rerr j rs fl err where
      "derr = None" "ImageURLs req \<noteq> []"
      "generateID e [] 8 = Some (id', [RandRead 4 rerr])"
      "j < length (ImageURLs req)" "length rs = j"
      "fl \<noteq> []" "gets fl = [ImageURLs req ! j]" "saved fl = []" "posts fl = []" "mkdirs fl = []"
      "readdirs fl = []" "\<forall>ev \<in> set fl. is_fetch ev" "failed (last fl)"
      "recognize e w r =
         Some (jsonError e w StatusInternalServerError err,
               [RandRead 4 rerr, Mkdir (filepath_Join e [inputDir e, id']) None]
               @ fetched e (filepath_Join e [inputDir e, id']) 0 (zip (take j (ImageURLs req)) rs)
               @ fl)"
  | (post_failed) id' rerr rs msg where
      "derr = None" "ImageURLs req \<noteq> []"
      "generateID e [] 8 = Some (id', [RandRead 4 rerr])"
      "length rs = length (ImageURLs req)"
      "recognize e w r =
         Some (jsonError e w StatusInternalServerError (''could not call darkflow: '' @ msg),
               [RandRead 4 rerr, Mkdir (filepath_Join e [inputDir e, id']) None]
               @ fetched e (filepath_Join e [inputDir e, id']) 0 (zip (ImageURLs req) rs)
               @ [Post (darkflowURL e) ''application/json''
                    (JObject [(''input_dir'', JString (filepath_Join e [inputDir e, id'])),
                              (''output_dir'', JString (filepath_Join e [outputDir e, id']))])
                    (Inl msg)])"
  | (post_status) id' rerr rs resp where
      "derr = None" "ImageURLs req \<noteq> []"
      "generateID e [] 8 = Some (id', [RandRead 4 rerr])"
      "length rs = length (ImageURLs req)"
      "StatusCode resp \<noteq> StatusOK"
      "recognize e w r =
         Some (jsonError e w (StatusCode resp) ''darkflow returned error'',
               [RandRead 4 rerr, Mkdir (filepath_Join e [inputDir e, id']) None]
               @ fetched e (filepath_Join e [inputDir e, id']) 0 (zip (ImageURLs req) rs)
               @ [Post (darkflowURL e) ''application/json''
                    (JObject [(''input_dir'', JString (filepath_Join e [inputDir e, id'])),
                              (''output_dir'', JString (filepath_Join e [outputDir e, id']))])
                    (Inr resp)])"
  | (readdir_failed) id' rerr rs resp msg where
      "derr = None" "ImageURLs req \<noteq> []"
      "generateID e [] 8 = Some (id', [RandRead 4 rerr])"
      "length rs = length (ImageURLs req)"
      "StatusCode resp = StatusOK"
      "recognize e w r =
         Some (jsonError e w StatusInternalServerError (''could not read output dir: '' @ msg),
               [RandRead 4 rerr, Mkdir (filepath_Join e [inputDir e, id']) None]
               @ fetched e (filepath_Join e [inputDir e, id']) 0 (zip (ImageURLs req) rs)
               @ [Post (darkflowURL e) ''application/json''
                    (JObject [(''input_dir'', JString (filepath_Join e [inputDir e, id'])),
                              (''output_dir'', JString (filepath_Join e [outputDir e, id']))])
                    (Inr resp),
                  ReadDir (filepath_Join e [outputDir e, id']) (Inl msg)])"
  | (success) id' rerr rs resp files where
      "derr = None" "ImageURLs req \<noteq> []"
      "generateID e [] 8 = Some (id', [RandRead 4 rerr])"
      "length rs = length (ImageURLs req)"
      "StatusCode resp = StatusOK"
      "recognize e w r =
         Some (jsonResponse e w StatusOK
                 (JArray (map (\<lambda>f. JString (filepath_Join e [''/output'', id', f])) files)),
               [RandRead 4 rerr, Mkdir (filepath_Join e [inputDir e, id']) None]
               @ fetched e (filepath_Join e [inputDir e, id']) 0 (zip (ImageURLs req) rs)
               @ [Post (darkflowURL e) ''application/json''
                    (JObject [(''input_dir'', JString (filepath_Join e [inputDir e, id'])),
                              (''output_dir'', JString (filepath_Join e [outputDir e, id']))])
                    (Inr resp),
                  ReadDir (filepath_Join e [outputDir e, id']) (Inr files)])"
proof (cases "derr \<noteq> None \<or> ImageURLs req = []")
  case True
  with assms have "recognize e w r =
      Some (jsonError e w StatusBadRequest (''invalid json body: '' @ fmt_v derr), [])"
    by (rule recognize_bad)
  with True show thesis by (rule bad)
next
  case False
  then have ok: "derr = None" "ImageURLs req \<noteq> []"
    by simp_all
  let ?rerr = "snd (rand_Read e [] 4)"
  let ?id = "hex_EncodeToString (fill (replicate 4 0) (fst (rand_Read e [] 4)))"
  let ?input = "filepath_Join e [inputDir e, ?id]"
  let ?out = "filepath_Join e [outputDir e, ?id]"
  let ?buf = "JObject [(''input_dir'', JString ?input), (''output_dir'', JString ?out)]"
  let ?tr0 = "[RandRead 4 ?rerr]"
  let ?tr1 = "?tr0 @ [Mkdir ?input None]"
  have dec: "json_Decode e (ReqBody r) = (None, req)"
    using assms(2) ok(1) by simp
  show thesis
  proof (cases "4 \<le> make_limit e")
  case lim: False
  then have none: "generateID e [] 8 = None"
    by (simp add: generateID_8_None)
  then have "recognize e w r =
      Some (w @ [Panic ''runtime error: makeslice: len out of range''], [])"
    using assms(1) dec ok(2) by (simp add: recognize_def)
  with ok none show thesis
    by (intro no_id)
  next
  case lim: True
  have gid: "generateID e [] 8 = Some (?id, ?tr0)"
    by (simp add: generateID_8 [OF lim])
  note start = assms(1) dec ok(2) gid
  show thesis
  proof (cases "os_Mkdir e ?tr0 ?input")
    case (Some msg)
    have "recognize e w r =
        Some (jsonError e w StatusInternalServerError (''could not create input dir: '' @ msg),
              ?tr0 @ [Mkdir ?input (Some msg)])"
      by (rule recognize_mkdir_failed [OF start Some])
    then show thesis
      using ok gid by (intro mkdir_failed [of ?id ?rerr msg]) simp_all
  next
    case None
    obtain res tr2 where dl: "download_loop e ?input 0 (ImageURLs req) ?tr1 = (res, tr2)"
      by (cases "download_loop e ?input 0 (ImageURLs req) ?tr1")
    show thesis
    proof (cases res)
      case (Some err)
      from download_loop_fail [OF dl [unfolded Some]] obtain j rs fl where
        fl: "j < length (ImageURLs req)" "length rs = j"
          "tr2 = ?tr1 @ fetched e ?input 0 (zip (take j (ImageURLs req)) rs) @ fl"
          "fl \<noteq> []" "gets fl = [ImageURLs req ! j]" "saved fl = []" "posts fl = []" "mkdirs fl = []"
          "readdirs fl = []" "\<forall>ev \<in> set fl. is_fetch ev" "failed (last fl)"
        by blast
      have "recognize e w r = Some (jsonError e w StatusInternalServerError err, tr2)"
        by (rule recognize_fetch_failed [OF start None dl [unfolded Some]])
      then show thesis
        using ok gid fl
        by (intro fetch_failed [of ?id ?rerr j rs fl err]) simp_all
    next
      case dlNone: None
      from download_loop_ok [OF dl [unfolded dlNone]] obtain rs where
        rs: "length rs = length (ImageURLs req)"
          "tr2 = ?tr1 @ fetched e ?input 0 (zip (ImageURLs req) rs)"
        by blast
      define res where "res = http_Post e tr2 (darkflowURL e) ''application/json'' ?buf"
      define tr3 where "tr3 = tr2 @ [Post (darkflowURL e) ''application/json'' ?buf res]"
      note run = recognize_fetched [OF start None dl [unfolded dlNone] res_def [symmetric] tr3_def,
          of w]
      show thesis
      proof (cases res)
        case (Inl msg)
        then have "recognize e w r =
            Some (jsonError e w StatusInternalServerError (''could not call darkflow: '' @ msg), tr3)"
          using run by simp
        then show thesis
          using ok gid rs Inl
          by (intro post_failed [of ?id ?rerr rs msg]) (simp_all add: tr3_def)
      next
        case (Inr resp)
        show thesis
        proof (cases "StatusCode resp = StatusOK")
          case False
          then have "recognize e w r =
              Some (jsonError e w (StatusCode resp) ''darkflow returned error'', tr3)"
            using run Inr by simp
          then show thesis
            using ok gid rs False Inr
            by (intro post_status [of ?id ?rerr rs resp]) (simp_all add: tr3_def)
        next
          case True
          show thesis
          proof (cases "ioutil_ReadDir e tr3 ?out")
            case rdInl: (Inl msg)
            then have "recognize e w r =
                Some (jsonError e w StatusInternalServerError (''could not read output dir: '' @ msg),
                      tr3 @ [ReadDir ?out (Inl msg)])"
              using run Inr True by simp
            then show thesis
              using ok gid rs True Inr
              by (intro readdir_failed [of ?id ?rerr rs resp msg]) (simp_all add: tr3_def)
          next
            case rdInr: (Inr files)
            then have "recognize e w r =
                Some (jsonResponse e w StatusOK
                        (JArray (map (\<lambda>f. JString (filepath_Join e [''/output'', ?id, f])) files)),
                      tr3 @ [ReadDir ?out (Inr files)])"
              using run Inr True by simp
            then show thesis
              using ok gid rs True Inr
              by (intro success [of ?id ?rerr rs resp files]) (simp_all add: tr3_def)
          qed
        qed
      qed
    qed
  qed
qed
qed

subsection \<open>Projections of responses and traces\<close>

lemma statuses_append [simp]: "statuses (a @ b) = statuses a @ statuses b"
  by (simp add: statuses_def)
lemma statuses_Nil [simp]: "statuses [] = []"
  by (simp add: statuses_def)
lemma statuses_Cons [simp]: "statuses (c # w) = status_of c @ statuses w"
  by (simp add: statuses_def)
lemma payloads_append [simp]: "payloads (a @ b) = payloads a @ payloads b"
  by (simp add: payloads_def)
lemma payloads_Nil [simp]: "payloads [] = []"
  by (simp add: payloads_def)
lemma payloads_Cons [simp]: "payloads (c # w) = payload_of c @ payloads w"
  by (simp add: payloads_def)

lemma statuses_setupResponse: "statuses (setupResponse w) = statuses w"
  by (simp add: setupResponse_def)

lemma written_append [simp]: "written (a @ b) = written a @ written b"
  by (simp add: written_def)
lemma written_Nil [simp]: "written [] = []"
  by (simp add: written_def)
lemma written_Cons [simp]: "written (c # w) = written_by c @ written w"
  by (simp add: written_def)

lemma jsonResponse_invalid:
  assumes "status < 100 \<or> 999 < status"
  shows "jsonResponse e [] status payload = setupResponse [] @ [invalid_code status]"
  using assms by (auto simp: jsonResponse_def Let_def w_WriteHeader_def statuses_setupResponse)

lemma jsonResponse_valid:
  assumes "100 \<le> status" and "status \<le> 999"
    and "err = (if bodyAllowedForStatus status
                then w_Write e (setupResponse [] @ [WriteHeader status]) payload
                else Some ErrBodyNotAllowed)"
  shows "jsonResponse e [] status payload =
           setupResponse [] @ [WriteHeader status, Encode payload err] @
           (case err of
              Some msg \<Rightarrow> [WriteHeader 500]
            | None \<Rightarrow> [HeaderSet ''Content-Type'' ''application/json''])"
  using assms
  by (simp add: jsonResponse_def Let_def w_WriteHeader_def w_Encode_def statuses_setupResponse
      StatusInternalServerError_def split: option.splits)

lemma status_range:
  fixes status :: int
  obtains (invalid) "status < 100 \<or> 999 < status"
  | (valid) "100 \<le> status" "status \<le> 999"
  by linarith

lemma statuses_jsonResponse:
  "take 1 (statuses (jsonResponse e [] status payload)) =
     (if 100 \<le> status \<and> status \<le> 999 then [status] else [])"
proof (cases status rule: status_range)
  case invalid
  from jsonResponse_invalid [OF this] invalid show ?thesis
    by (auto simp: setupResponse_def invalid_code_def)
next
  case valid
  then show ?thesis
    by (simp add: jsonResponse_valid [OF _ _ refl] setupResponse_def split: option.splits)
qed

lemma payloads_jsonResponse:
  "payloads (jsonResponse e [] status payload) =
     (if 100 \<le> status \<and> status \<le> 999 then [payload] else [])"
proof (cases status rule: status_range)
  case invalid
  from jsonResponse_invalid [OF this] invalid show ?thesis
    by (auto simp: setupResponse_def invalid_code_def)
next
  case valid
  then show ?thesis
    by (simp add: jsonResponse_valid [OF _ _ refl] setupResponse_def split: option.splits)
qed

lemma statuses_jsonError:
  "take 1 (statuses (jsonError e [] status msg)) =
     (if 100 \<le> status \<and> status \<le> 999 then [status] else [])"
  unfolding jsonError_def by (rule statuses_jsonResponse)

lemma payloads_jsonError:
  "payloads (jsonError e [] status msg) =
     (if 100 \<le> status \<and> status \<le> 999 then [JObject [(''reason'', JString msg)]] else [])"
  by (simp add: jsonError_def payloads_jsonResponse)

lemma gets_fetched:
  "length rs = length imgs \<Longrightarrow> gets (fetched e input i (zip imgs rs)) = imgs"
proof (induction imgs arbitrary: rs i)
  case Nil
  then show ?case by simp
next
  case (Cons img imgs)
  then show ?case by (cases rs) simp_all
qed

lemma saved_fetched:
  "length rs = length imgs \<Longrightarrow>
   saved (fetched e input i (zip imgs rs)) =
     zip (map (\<lambda>k. filepath_Join e [input, Sprintf_d_jpg k]) [i..<i + length imgs]) (map Body rs)"
proof (induction imgs arbitrary: rs i)
  case Nil
  then show ?case by simp
next
  case (Cons img imgs)
  then obtain response rest where rs: "rs = response # rest" "length rest = length imgs"
    by (cases rs) simp_all
  have "[i..<i + length (img # imgs)] = i # [Suc i..<Suc i + length imgs]"
    by (subst upt_rec) simp
  with Cons.IH [OF rs(2), of "Suc i"] rs show ?case
    by simp
qed

lemma posts_fetched [simp]: "posts (fetched e input i ps) = []"
  by (induction e input i ps rule: fetched.induct) simp_all

lemma mkdirs_fetched [simp]: "mkdirs (fetched e input i ps) = []"
  by (induction e input i ps rule: fetched.induct) simp_all

lemma readdirs_fetched [simp]: "readdirs (fetched e input i ps) = []"
  by (induction e input i ps rule: fetched.induct) simp_all

lemma fetched_is_fetch: "ev \<in> set (fetched e input i ps) \<Longrightarrow> is_fetch ev \<and> \<not> failed ev"
  by (induction e input i ps rule: fetched.induct) auto

lemma filter_fetched [simp]: "filter is_fetch (fetched e input i ps) = fetched e input i ps"
  by (induction e input i ps rule: fetched.induct) simp_all

lemmas status_consts = StatusOK_def StatusBadRequest_def StatusInternalServerError_def

lemma take1_statuses_jsonError [simp]:
  "take (Suc 0) (statuses (jsonError e [] status msg)) =
     (if 100 \<le> status \<and> status \<le> 999 then [status] else [])"
  using statuses_jsonError [of e status msg] by simp

lemma take1_statuses_jsonResponse [simp]:
  "take (Suc 0) (statuses (jsonResponse e [] status payload)) =
     (if 100 \<le> status \<and> status \<le> 999 then [status] else [])"
  using statuses_jsonResponse [of e status payload] by simp

lemma recognize_options:
  "Method r = MethodOptions \<Longrightarrow> recognize e w r = Some (setupResponse w, [])"
  by (simp add: recognize_def)


lemma take1_statuses_setupResponse [simp]: "statuses (setupResponse []) = []"
  by (simp add: statuses_setupResponse)

lemma not_failed_fetched [simp]: "ev \<in> set (fetched e input i ps) \<Longrightarrow> \<not> failed ev"
  by (simp add: fetched_is_fetch)

lemma is_fetch_fetched [simp]: "ev \<in> set (fetched e input i ps) \<Longrightarrow> is_fetch ev"
  by (simp add: fetched_is_fetch)

lemma Post_notin_fetched [simp]: "Post url ctype body res \<notin> set (fetched e input i ps)"
  using fetched_is_fetch [of "Post url ctype body res" e input i ps] by auto

lemma Post_notin_fetches: "\<forall>ev \<in> set fl. is_fetch ev \<Longrightarrow> Post url ctype body res \<notin> set fl"
  by auto

lemma gets_take_fetched:
  "length rs = j \<Longrightarrow> j < length imgs \<Longrightarrow>
   gets (fetched e input i (zip (take j imgs) rs)) @ [imgs ! j] = take (Suc j) imgs"
  by (simp add: gets_fetched take_Suc_conv_app_nth)

lemma map_fst_saved_fetched:
  "length rs = length imgs \<Longrightarrow>
   map fst (saved (fetched e input i (zip imgs rs))) =
     map (\<lambda>k. filepath_Join e [input, Sprintf_d_jpg k]) [i..<i + length imgs]"
  by (simp add: saved_fetched)

lemma length_saved_fetched:
  "length rs = length imgs \<Longrightarrow> length (saved (fetched e input i (zip imgs rs))) = length imgs"
  by (simp add: saved_fetched)


subsection \<open>Facts about a run that has returned\<close>

lemma recognize_returns: "\<exists>w' tr. recognize e w r = Some (w', tr)"
proof (cases "Method r = MethodOptions")
  case True
  then show ?thesis by (simp add: recognize_options)
next
  case False
  obtain derr req where dec: "json_Decode e (ReqBody r) = (derr, req)"
    by (cases "json_Decode e (ReqBody r)")
  from False dec show ?thesis
    by (cases rule: recognize_cases [where w = w]) blast+
qed

lemma success_lists_output_directory_run:
  assumes run: "recognize e [] r = Some (w', tr)"
    and ok: "take 1 (statuses w') = [200]"
    and gid: "generateID e [] 8 = Some (id', tr0)"
  shows "\<exists>files xs. tr \<noteq> [] \<and>
           last tr = ReadDir (filepath_Join e [outputDir e, id']) (Inr files) \<and>
           readdirs tr = [filepath_Join e [outputDir e, id']] \<and>
           payloads w' = [JArray xs] \<and> length xs = length files \<and>
           (\<forall>i < length files. xs ! i = JString (filepath_Join e [''/output'', id', files ! i]))"
proof (cases "Method r = MethodOptions")
  case True
  with run ok show ?thesis
    by (auto simp: recognize_options statuses_setupResponse)
next
  case False
  obtain derr req where dec: "json_Decode e (ReqBody r) = (derr, req)"
    by (cases "json_Decode e (ReqBody r)")
  from False dec show ?thesis
  proof (cases rule: recognize_cases [where w = "[]"])
    case no_id
    with run ok gid show ?thesis by auto
  next
    case bad
    with run ok show ?thesis by (auto simp: status_consts)
  next
    case (mkdir_failed id1 rerr msg)
    with run ok show ?thesis by (auto simp: status_consts)
  next
    case (fetch_failed id1 rerr j rs fl err)
    with run ok show ?thesis by (auto simp: status_consts)
  next
    case (post_failed id1 rerr rs msg)
    with run ok show ?thesis by (auto simp: status_consts)
  next
    case (post_status id1 rerr rs resp)
    with run ok show ?thesis by (auto simp: status_consts split: if_splits)
  next
    case (readdir_failed id1 rerr rs resp msg)
    with run ok show ?thesis by (auto simp: status_consts)
  next
    case (success id1 rerr rs resp files)
    let ?xs = "map (\<lambda>f. JString (filepath_Join e [''/output'', id', f])) files"
    from success gid have id: "id1 = id'"
      by simp
    with success run have
      w': "w' = jsonResponse e [] StatusOK (JArray ?xs)"
      and tr: "last tr = ReadDir (filepath_Join e [outputDir e, id']) (Inr files)" "tr \<noteq> []"
        "readdirs tr = [filepath_Join e [outputDir e, id']]"
      by simp_all
    have "payloads w' = [JArray ?xs]"
      using w' by (simp add: payloads_jsonResponse status_consts)
    moreover have "length ?xs = length files"
      by simp
    moreover have "\<forall>i < length files. ?xs ! i = JString (filepath_Join e [''/output'', id', files ! i])"
      by simp
    ultimately show ?thesis
      using tr by blast
  qed
qed

lemma download_failure_aborts_run:
  assumes run: "recognize e [] r = Some (w', tr)"
    and dec: "json_Decode e (ReqBody r) = (derr, req)"
    and gid: "generateID e [] 8 = Some (id', tr0)"
    and bad: "\<exists>ev \<in> set tr. is_fetch ev \<and> failed ev"
  shows "take 1 (statuses w') = [500] \<and>
         (\<exists>msg. payloads w' = [JObject [(''reason'', JString msg)]]) \<and>
         posts tr = [] \<and> is_fetch (last tr) \<and> failed (last tr) \<and>
         (\<exists>j < length (ImageURLs req).
            gets tr = take (Suc j) (ImageURLs req) \<and>
            map fst (saved tr) =
              map (\<lambda>k. filepath_Join e [filepath_Join e [inputDir e, id'], Sprintf_d_jpg k]) [0..<j])"
proof (cases "Method r = MethodOptions")
  case True
  with run bad show ?thesis
    by (auto simp: recognize_options)
next
  case False
  from False dec show ?thesis
  proof (cases rule: recognize_cases [where w = "[]"])
    case no_id
    with run assms(4) gid show ?thesis by auto
  next
    case bad
    with run assms(4) show ?thesis by auto
  next
    case (mkdir_failed id1 rerr msg)
    with run bad show ?thesis by auto
  next
    case (fetch_failed id1 rerr j rs fl err)
    from fetch_failed gid have id: "id1 = id'"
      by simp
    let ?input = "filepath_Join e [inputDir e, id']"
    let ?pre = "fetched e ?input 0 (zip (take j (ImageURLs req)) rs)"
    from fetch_failed run id have
      w': "w' = jsonError e [] StatusInternalServerError err" and
      tr: "tr = [RandRead 4 rerr, Mkdir ?input None] @ ?pre @ fl"
      by simp_all
    have len: "length rs = length (take j (ImageURLs req))"
      using fetch_failed by simp
    have "gets tr = gets ?pre @ [ImageURLs req ! j]"
      using fetch_failed by (simp add: tr)
    then have g: "gets tr = take (Suc j) (ImageURLs req)"
      using fetch_failed by (simp add: gets_take_fetched)
    have s: "map fst (saved tr) = map (\<lambda>k. filepath_Join e [?input, Sprintf_d_jpg k]) [0..<j]"
      using fetch_failed map_fst_saved_fetched [OF len, of e ?input 0] by (simp add: tr)
    have l: "last tr = last fl"
      using fetch_failed by (simp add: tr)
    have "is_fetch (last fl)"
      using fetch_failed last_in_set [of fl] by blast
    with l fetch_failed have "is_fetch (last tr)" "failed (last tr)"
      by simp_all
    moreover have "posts tr = []"
      using fetch_failed by (simp add: tr)
    moreover have "take 1 (statuses w') = [500]"
      using w' by (simp add: status_consts)
    moreover have "\<exists>msg. payloads w' = [JObject [(''reason'', JString msg)]]"
      using w' by (simp add: payloads_jsonError status_consts)
    ultimately show ?thesis
      using g s fetch_failed(4) by blast
  next
    case (post_failed id1 rerr rs msg)
    with run bad show ?thesis by auto
  next
    case (post_status id1 rerr rs resp)
    with run bad show ?thesis by auto
  next
    case (readdir_failed id1 rerr rs resp msg)
    with run bad show ?thesis by auto
  next
    case (success id1 rerr rs resp files)
    with run bad show ?thesis by auto
  qed
qed


lemma recognition_request_shape_run:
  assumes run: "recognize e [] r = Some (w', tr)"
    and dec: "json_Decode e (ReqBody r) = (derr, req)"
    and gid: "generateID e [] 8 = Some (id', tr0)"
  shows "(posts tr = [] \<or>
          posts tr =
            [(darkflowURL e, ''application/json'',
              JObject [(''input_dir'', JString (filepath_Join e [inputDir e, id'])),
                       (''output_dir'', JString (filepath_Join e [outputDir e, id']))])]) \<and>
         (ImageURLs req \<noteq> [] \<and> length (saved tr) = length (ImageURLs req) \<longrightarrow>
          posts tr =
            [(darkflowURL e, ''application/json'',
              JObject [(''input_dir'', JString (filepath_Join e [inputDir e, id'])),
                       (''output_dir'', JString (filepath_Join e [outputDir e, id']))])])"
proof (cases "Method r = MethodOptions")
  case True
  with run show ?thesis
    by (auto simp: recognize_options)
next
  case False
  from False dec show ?thesis
  proof (cases rule: recognize_cases [where w = "[]"])
    case no_id
    with run gid show ?thesis by auto
  next
    case bad
    with run show ?thesis by auto
  next
    case (mkdir_failed id1 rerr msg)
    with run show ?thesis by auto
  next
    case (fetch_failed id1 rerr j rs fl err)
    moreover have "length (saved (fetched e (filepath_Join e [inputDir e, id1]) 0
        (zip (take j (ImageURLs req)) rs))) = j"
      using fetch_failed length_saved_fetched [of rs "take j (ImageURLs req)"] by simp
    ultimately show ?thesis
      using run by auto
  next
    case (post_failed id1 rerr rs msg)
    with run gid show ?thesis by auto
  next
    case (post_status id1 rerr rs resp)
    with run gid show ?thesis by auto
  next
    case (readdir_failed id1 rerr rs resp msg)
    with run gid show ?thesis by auto
  next
    case (success id1 rerr rs resp files)
    with run gid show ?thesis by auto
  qed
qed

lemma only_the_input_directory_is_created_run:
  assumes run: "recognize e [] r = Some (w', tr)"
    and gid: "generateID e [] 8 = Some (id', tr0)"
  shows "(mkdirs tr = [] \<or> mkdirs tr = [filepath_Join e [inputDir e, id']]) \<and>
         (filepath_Join e [outputDir e, id'] \<noteq> filepath_Join e [inputDir e, id'] \<longrightarrow>
          filepath_Join e [outputDir e, id'] \<notin> set (mkdirs tr))"
proof (cases "Method r = MethodOptions")
  case True
  with run show ?thesis
    by (auto simp: recognize_options)
next
  case False
  obtain derr req where dec: "json_Decode e (ReqBody r) = (derr, req)"
    by (cases "json_Decode e (ReqBody r)")
  from False dec show ?thesis
  proof (cases rule: recognize_cases [where w = "[]"])
    case no_id
    with run gid show ?thesis by auto
  next
    case bad
    with run show ?thesis by auto
  next
    case (mkdir_failed id1 rerr msg)
    with run gid show ?thesis by auto
  next
    case (fetch_failed id1 rerr j rs fl err)
    with run gid show ?thesis by auto
  next
    case (post_failed id1 rerr rs msg)
    with run gid show ?thesis by auto
  next
    case (post_status id1 rerr rs resp)
    with run gid show ?thesis by auto
  next
    case (readdir_failed id1 rerr rs resp msg)
    with run gid show ?thesis by auto
  next
    case (success id1 rerr rs resp files)
    with run gid show ?thesis by auto
  qed
qed


lemma sent_status_jsonResponse:
  assumes "100 \<le> status" and "status \<le> 999"
  shows "sent_status (jsonResponse e [] status payload) = Some status"
  using assms
  by (simp add: sent_status_def jsonResponse_valid [OF _ _ refl] setupResponse_def
      split: option.splits)

lemma written_jsonResponse:
  assumes "100 \<le> status" and "status \<le> 999"
  shows "written (jsonResponse e [] status payload) =
     (if bodyAllowedForStatus status \<and>
         w_Write e (setupResponse [] @ [WriteHeader status]) payload = None
      then [payload] else [])"
  using assms
  by (auto simp: jsonResponse_valid [OF _ _ refl] setupResponse_def ErrBodyNotAllowed_def
      split: option.splits)



lemma remote_status_run:
  assumes run: "recognize e [] r = Some (w', tr)"
    and post: "Post url ctype body (Inr resp) \<in> set tr"
  shows "(readdirs tr \<noteq> [] \<longleftrightarrow> StatusCode resp = 200) \<and>
         (StatusCode resp \<noteq> 200 \<longrightarrow>
            last tr = Post url ctype body (Inr resp) \<and>
            w' = jsonError e [] (StatusCode resp) ''darkflow returned error'')"
proof (cases "Method r = MethodOptions")
  case True
  with run post show ?thesis
    by (auto simp: recognize_options)
next
  case False
  obtain derr req where dec: "json_Decode e (ReqBody r) = (derr, req)"
    by (cases "json_Decode e (ReqBody r)")
  from False dec show ?thesis
  proof (cases rule: recognize_cases [where w = "[]"])
    case bad
    with run post show ?thesis by auto
  next
    case no_id
    with run post show ?thesis by auto
  next
    case (mkdir_failed id1 rerr msg)
    with run post show ?thesis by auto
  next
    case (fetch_failed id1 rerr j rs fl err)
    with run post Post_notin_fetches [of fl url ctype body "Inr resp"] show ?thesis by auto
  next
    case (post_failed id1 rerr rs msg)
    with run post show ?thesis by auto
  next
    case (post_status id1 rerr rs resp1)
    with run post have "resp1 = resp" "url = darkflowURL e" "ctype = ''application/json''"
      "body = JObject [(''input_dir'', JString (filepath_Join e [inputDir e, id1])),
                       (''output_dir'', JString (filepath_Join e [outputDir e, id1]))]"
      by auto
    with post_status run show ?thesis
      by (auto simp: status_consts)
  next
    case (readdir_failed id1 rerr rs resp1 msg)
    with run post have "resp1 = resp" "url = darkflowURL e" "ctype = ''application/json''"
      "body = JObject [(''input_dir'', JString (filepath_Join e [inputDir e, id1])),
                       (''output_dir'', JString (filepath_Join e [outputDir e, id1]))]"
      by auto
    with readdir_failed run show ?thesis
      by (auto simp: status_consts)
  next
    case (success id1 rerr rs resp1 files)
    with run post have "resp1 = resp" "url = darkflowURL e" "ctype = ''application/json''"
      "body = JObject [(''input_dir'', JString (filepath_Join e [inputDir e, id1])),
                       (''output_dir'', JString (filepath_Join e [outputDir e, id1]))]"
      by auto
    with success run show ?thesis
      by (auto simp: status_consts)
  qed
qed



lemma recognize_cong:
  assumes "Method r' = Method r" and "json_Decode e (ReqBody r') = json_Decode e (ReqBody r)"
  shows "recognize e w r' = recognize e w r"
  using assms by (simp add: recognize_def)

subsection \<open>Runs on the concrete runtime\<close>

lemma run_two: "recognize env_demo [] req_two = Some (w_two, tr_two)"
  by code_simp

lemma run_three: "recognize env_demo [] req_three = Some (w_three, tr_three)"
  by code_simp

lemma run_accepted: "recognize env_accepted [] req_two = Some (w_accepted, tr_accepted)"
  by code_simp

lemma gen_demo: "generateID env_demo [] 8 = Some (''deadbeef'', [RandRead 4 None])"
  by code_simp

lemma decode_two:
  "json_Decode env_demo (ReqBody req_two) =
     (None, \<lparr>ImageURLs = [''http://a/cat.png'', ''http://a/missing'']\<rparr>)"
  by code_simp

lemma decode_three:
  "json_Decode env_demo (ReqBody req_three) =
     (None, \<lparr>ImageURLs = [''http://a/cat.png'', ''http://down/dog.png'', ''http://a/missing'']\<rparr>)"
  by code_simp

lemma method_two: "Method req_two \<noteq> MethodOptions"
  by code_simp

lemma decode_empty: "json_Decode env_demo (ReqBody req_empty) = (None, \<lparr>ImageURLs = []\<rparr>)"
  by code_simp

lemma method_empty: "Method req_empty \<noteq> MethodOptions"
  by code_simp

lemma run_trailing: "recognize env_demo [] req_trailing = Some (w_two, tr_two)"
  by code_simp


lemma run_badcode: "recognize env_badcode [] req_two = Some (w_badcode, tr_badcode)"
  by code_simp


subsection \<open>The deferred calls\<close>










section \<open>The claims\<close>

text \<open>
  In the theorems about \<open>recognize\<close> the response writer is fresh (no call has been made
  on it) and \<open>id'\<close> is the ID of the job, the result of \<open>generateID\<close> on the empty trace.
  Each of them states that the run returns, and what it then has done.
\<close>

text \<open>
  C1. Every successful run (status 200) ends with the listing of the job's output directory,
  and the payload it encodes is an array with one element per entry of that listing, in the
  order of the listing: the element at position \<open>i\<close> is the path joined from
  \<open>/output\<close>, the job ID and the name of the entry at position \<open>i\<close>. The number of
  URLs in the request plays no part.
\<close>

theorem success_lists_output_directory:
  assumes gid: "generateID e [] 8 = Some (id', tr0)"
  shows "\<exists>w' tr. recognize e [] r = Some (w', tr) \<and>
           (take 1 (statuses w') = [200] \<longrightarrow>
              (\<exists>files xs. tr \<noteq> [] \<and>
                 last tr = ReadDir (filepath_Join e [outputDir e, id']) (Inr files) \<and>
                 readdirs tr = [filepath_Join e [outputDir e, id']] \<and>
                 payloads w' = [JArray xs] \<and> length xs = length files \<and>
                 (\<forall>i < length files.
                    xs ! i = JString (filepath_Join e [''/output'', id', files ! i]))))"
proof -
  obtain w' tr where run: "recognize e [] r = Some (w', tr)"
    using recognize_returns by blast
  with success_lists_output_directory_run [OF run _ gid] show ?thesis
    by blast
qed

theorem success_lists_output_directory_witness:
  "generateID env_demo [] 8 = Some (''deadbeef'', [RandRead 4 None]) \<and>
   recognize env_demo [] req_two = Some (w_two, tr_two) \<and>
   take 1 (statuses w_two) = [200] \<and>
   last tr_two = ReadDir ''/output/deadbeef'' (Inr [''0.jpg'', ''1.jpg'', ''labels.txt'']) \<and>
   payloads w_two =
     [JArray [JString ''/output/deadbeef/0.jpg'', JString ''/output/deadbeef/1.jpg'',
              JString ''/output/deadbeef/labels.txt'']] \<and>
   (\<exists>files xs. tr_two \<noteq> [] \<and>
      last tr_two = ReadDir (filepath_Join env_demo [outputDir env_demo, ''deadbeef'']) (Inr files) \<and>
      readdirs tr_two = [filepath_Join env_demo [outputDir env_demo, ''deadbeef'']] \<and>
      payloads w_two = [JArray xs] \<and> length xs = length files \<and>
      (\<forall>i < length files.
         xs ! i = JString (filepath_Join env_demo [''/output'', ''deadbeef'', files ! i])))"
  (is "_ \<and> _ \<and> _ \<and> _ \<and> _ \<and> ?listing")
proof -
  have st: "take 1 (statuses w_two) = [200]"
    by (simp add: w_two_def)
  have ev: "last tr_two = ReadDir ''/output/deadbeef'' (Inr [''0.jpg'', ''1.jpg'', ''labels.txt''])"
    "payloads w_two =
     [JArray [JString ''/output/deadbeef/0.jpg'', JString ''/output/deadbeef/1.jpg'',
              JString ''/output/deadbeef/labels.txt'']]"
    by (simp_all add: tr_two_def w_two_def)
  from success_lists_output_directory [OF gen_demo, of req_two] run_two st have ?listing
    by auto
  with gen_demo run_two st ev show ?thesis
    by blast
qed

text \<open>
  C2, as amended. A request whose method is not OPTIONS and whose body the decoder rejects,
  or whose first JSON value decodes to a request without image URLs, is answered with
  status 400 and a JSON object holding the reason, which reaches the client when the write
  succeeds; the trace of the run is empty: no ID is generated, no directory created,
  nothing downloaded and nothing posted. What follows the first JSON value of the body is
  never read: two bodies that start with the same value get the same answer. So a body
  that is not valid JSON is not always rejected: the request of the third theorem below is
  a valid request followed by other text, and it is answered with status 200 after a job
  has been created, downloaded and posted.
\<close>

theorem invalid_body_is_rejected:
  assumes meth: "Method r \<noteq> MethodOptions"
    and dec: "json_Decode e (ReqBody r) = (derr, req)"
  shows "(derr \<noteq> None \<or> ImageURLs req = [] \<longrightarrow>
            (\<exists>w'. recognize e [] r = Some (w', []) \<and>
               sent_status w' = Some 400 \<and>
               payloads w' = [JObject [(''reason'', JString (''invalid json body: '' @ fmt_v derr))]] \<and>
               written w' =
                 (if w_Write e (setupResponse [] @ [WriteHeader 400])
                       (JObject [(''reason'', JString (''invalid json body: '' @ fmt_v derr))]) = None
                  then [JObject [(''reason'', JString (''invalid json body: '' @ fmt_v derr))]]
                  else []))) \<and>
         (\<forall>body v rest rest'.
            json_scan e (ReqBody r) = Inr (v, rest) \<and> json_scan e body = Inr (v, rest') \<longrightarrow>
            recognize e [] (r\<lparr>ReqBody := body\<rparr>) = recognize e [] r)"
proof (intro conjI impI allI)
  assume "derr \<noteq> None \<or> ImageURLs req = []"
  from recognize_bad [OF meth dec this, of "[]"]
  show "\<exists>w'. recognize e [] r = Some (w', []) \<and>
      sent_status w' = Some 400 \<and>
      payloads w' = [JObject [(''reason'', JString (''invalid json body: '' @ fmt_v derr))]] \<and>
      written w' =
        (if w_Write e (setupResponse [] @ [WriteHeader 400])
              (JObject [(''reason'', JString (''invalid json body: '' @ fmt_v derr))]) = None
         then [JObject [(''reason'', JString (''invalid json body: '' @ fmt_v derr))]]
         else [])"
    by (simp add: jsonError_def sent_status_jsonResponse written_jsonResponse
        payloads_jsonResponse StatusBadRequest_def bodyAllowedForStatus_def)
next
  fix body v rest rest'
  assume "json_scan e (ReqBody r) = Inr (v, rest) \<and> json_scan e body = Inr (v, rest')"
  then have "json_Decode e (ReqBody (r\<lparr>ReqBody := body\<rparr>)) = json_Decode e (ReqBody r)"
    by (simp add: json_Decode_def)
  then show "recognize e [] (r\<lparr>ReqBody := body\<rparr>) = recognize e [] r"
    by (intro recognize_cong) simp_all
qed

theorem invalid_body_is_rejected_witness:
  "Method req_empty \<noteq> MethodOptions \<and>
   json_Decode env_demo (ReqBody req_empty) = (None, \<lparr>ImageURLs = []\<rparr>) \<and>
   ImageURLs \<lparr>ImageURLs = []\<rparr> = [] \<and>
   (\<exists>w'. recognize env_demo [] req_empty = Some (w', []) \<and>
      sent_status w' = Some 400 \<and>
      written w' = [JObject [(''reason'', JString ''invalid json body: <nil>'')]]) \<and>
   Method req_two \<noteq> MethodOptions \<and>
   json_scan env_demo (ReqBody req_two) = Inr (value_two, []) \<and>
   json_scan env_demo (ReqBody req_trailing) = Inr (value_two, '' trailing garbage'') \<and>
   recognize env_demo [] (req_two\<lparr>ReqBody := ReqBody req_trailing\<rparr>) = recognize env_demo [] req_two"
  (is "_ \<and> _ \<and> _ \<and> ?rejected \<and> _ \<and> _ \<and> _ \<and> ?same")
proof -
  have k: "ImageURLs \<lparr>ImageURLs = []\<rparr> = []"
    by simp
  have wr: "w_Write env_demo (setupResponse [] @ [WriteHeader 400])
      (JObject [(''reason'', JString (''invalid json body: '' @ fmt_v None))]) = None"
    by (simp add: env_demo_def)
  have s2: "json_scan env_demo (ReqBody req_two) = Inr (value_two, [])"
    by code_simp
  have s3: "json_scan env_demo (ReqBody req_trailing) = Inr (value_two, '' trailing garbage'')"
    by code_simp
  from invalid_body_is_rejected [OF method_empty decode_empty] k wr have ?rejected
    by (auto simp: fmt_v_def)
  moreover from invalid_body_is_rejected [OF method_two decode_two] s2 s3 have ?same
    by blast
  ultimately show ?thesis
    using method_empty decode_empty k method_two s2 s3 by blast
qed

theorem trailing_text_is_accepted_counterexample:
  "Method req_trailing \<noteq> MethodOptions \<and>
   \<not> valid_JSON env_demo (ReqBody req_trailing) \<and>
   recognize env_demo [] req_trailing = Some (w_two, tr_two) \<and>
   sent_status w_two = Some 200 \<and>
   mkdirs tr_two = [''/input/deadbeef''] \<and>
   gets tr_two = [''http://a/cat.png'', ''http://a/missing''] \<and>
   posts tr_two =
     [(''http://darkflow:8000'', ''application/json'',
       JObject [(''input_dir'', JString ''/input/deadbeef''),
                (''output_dir'', JString ''/output/deadbeef'')])]"
  by code_simp

text \<open>
  C3. When a call of the fetcher fails (the GET, the creation of the file or the copy), the
  handler answers with status 500 and a JSON reason, and the failing call is the last entry
  of the trace: the URLs requested are the list up to and including the failing position
  and no later one, the files written completely are the ones numbered below that position,
  and nothing is posted to the recognition service. Nothing follows the failure, so what
  was written before it stays.
\<close>

theorem download_failure_aborts:
  assumes dec: "json_Decode e (ReqBody r) = (derr, req)"
    and gid: "generateID e [] 8 = Some (id', tr0)"
  shows "\<exists>w' tr. recognize e [] r = Some (w', tr) \<and>
           ((\<exists>ev \<in> set tr. is_fetch ev \<and> failed ev) \<longrightarrow>
              take 1 (statuses w') = [500] \<and>
              (\<exists>msg. payloads w' = [JObject [(''reason'', JString msg)]]) \<and>
              posts tr = [] \<and> is_fetch (last tr) \<and> failed (last tr) \<and>
              (\<exists>j < length (ImageURLs req).
                 gets tr = take (Suc j) (ImageURLs req) \<and>
                 map fst (saved tr) =
                   map (\<lambda>k. filepath_Join e [filepath_Join e [inputDir e, id'], Sprintf_d_jpg k])
                     [0..<j]))"
proof -
  obtain w' tr where run: "recognize e [] r = Some (w', tr)"
    using recognize_returns by blast
  with download_failure_aborts_run [OF run dec gid] show ?thesis
    by blast
qed

theorem download_failure_aborts_witness:
  "json_Decode env_demo (ReqBody req_three) =
     (None, \<lparr>ImageURLs = [''http://a/cat.png'', ''http://down/dog.png'', ''http://a/missing'']\<rparr>) \<and>
   generateID env_demo [] 8 = Some (''deadbeef'', [RandRead 4 None]) \<and>
   recognize env_demo [] req_three = Some (w_three, tr_three) \<and>
   (\<exists>ev \<in> set tr_three. is_fetch ev \<and> failed ev) \<and>
   gets tr_three = [''http://a/cat.png'', ''http://down/dog.png''] \<and>
   saved tr_three = [(''/input/deadbeef/0.jpg'', ''cat'')] \<and>
   (take 1 (statuses w_three) = [500] \<and>
    (\<exists>msg. payloads w_three = [JObject [(''reason'', JString msg)]]) \<and>
    posts tr_three = [] \<and> is_fetch (last tr_three) \<and> failed (last tr_three) \<and>
    (\<exists>j < length (ImageURLs \<lparr>ImageURLs = [''http://a/cat.png'', ''http://down/dog.png'', ''http://a/missing'']\<rparr>).
       gets tr_three =
         take (Suc j) (ImageURLs \<lparr>ImageURLs = [''http://a/cat.png'', ''http://down/dog.png'', ''http://a/missing'']\<rparr>) \<and>
       map fst (saved tr_three) =
         map (\<lambda>k. filepath_Join env_demo [filepath_Join env_demo [inputDir env_demo, ''deadbeef''],
                Sprintf_d_jpg k]) [0..<j]))"
  (is "_ \<and> _ \<and> _ \<and> _ \<and> _ \<and> _ \<and> ?aborted")
proof -
  have b: "\<exists>ev \<in> set tr_three. is_fetch ev \<and> failed ev"
    by (simp add: tr_three_def)
  have ev: "gets tr_three = [''http://a/cat.png'', ''http://down/dog.png'']"
    "saved tr_three = [(''/input/deadbeef/0.jpg'', ''cat'')]"
    by (simp_all add: tr_three_def)
  from download_failure_aborts [OF decode_three gen_demo] run_three b have ?aborted
    by auto
  with run_three decode_three gen_demo b ev show ?thesis
    by blast
qed

text \<open>
  C4, as amended. Once the recognition service has answered, the handler goes on to list
  the output directory exactly when the status of the answer is 200. For any other status,
  2xx or not, the POST is the last entry of the trace and the handler answers through
  \<open>jsonError\<close> with the status code of the service and the reason
  \<open>darkflow returned error\<close>. What the client gets of it depends on the code. For 101
  and for the codes from 200 to 999 the client gets that same status, and it gets the
  reason only when the status admits a body (it is not 204 or 304, nor 101) and the write
  succeeds; otherwise the response has no body. For a code below 100 or above 999
  \<open>WriteHeader\<close> panics, and neither a status nor a body is sent. The third theorem
  below has two runs in which the client does not get the status of the service with a
  reason: the service answers 204 and the client gets 204 without a reason; the service
  answers with the code 99 and the client gets no response.
\<close>

theorem remote_status_is_propagated:
  "\<exists>w' tr. recognize e [] r = Some (w', tr) \<and>
     (\<forall>url ctype body resp. Post url ctype body (Inr resp) \<in> set tr \<longrightarrow>
        (readdirs tr \<noteq> [] \<longleftrightarrow> StatusCode resp = 200) \<and>
        (StatusCode resp \<noteq> 200 \<longrightarrow>
           last tr = Post url ctype body (Inr resp) \<and>
           w' = jsonError e [] (StatusCode resp) ''darkflow returned error'' \<and>
           ((StatusCode resp = 101 \<or> 200 \<le> StatusCode resp) \<and> StatusCode resp \<le> 999 \<longrightarrow>
              sent_status w' = Some (StatusCode resp) \<and>
              payloads w' = [JObject [(''reason'', JString ''darkflow returned error'')]] \<and>
              written w' =
                (if bodyAllowedForStatus (StatusCode resp) \<and>
                    w_Write e (setupResponse [] @ [WriteHeader (StatusCode resp)])
                      (JObject [(''reason'', JString ''darkflow returned error'')]) = None
                 then [JObject [(''reason'', JString ''darkflow returned error'')]]
                 else [])) \<and>
           (StatusCode resp < 100 \<or> 999 < StatusCode resp \<longrightarrow>
              w' = setupResponse [] @ [invalid_code (StatusCode resp)] \<and>
              sent_status w' = None \<and> payloads w' = [] \<and> written w' = [])))"
proof -
  obtain w' tr where run: "recognize e [] r = Some (w', tr)"
    using recognize_returns by blast
  have "(readdirs tr \<noteq> [] \<longleftrightarrow> StatusCode resp = 200) \<and>
        (StatusCode resp \<noteq> 200 \<longrightarrow>
           last tr = Post url ctype body (Inr resp) \<and>
           w' = jsonError e [] (StatusCode resp) ''darkflow returned error'' \<and>
           ((StatusCode resp = 101 \<or> 200 \<le> StatusCode resp) \<and> StatusCode resp \<le> 999 \<longrightarrow>
              sent_status w' = Some (StatusCode resp) \<and>
              payloads w' = [JObject [(''reason'', JString ''darkflow returned error'')]] \<and>
              written w' =
                (if bodyAllowedForStatus (StatusCode resp) \<and>
                    w_Write e (setupResponse [] @ [WriteHeader (StatusCode resp)])
                      (JObject [(''reason'', JString ''darkflow returned error'')]) = None
                 then [JObject [(''reason'', JString ''darkflow returned error'')]]
                 else [])) \<and>
           (StatusCode resp < 100 \<or> 999 < StatusCode resp \<longrightarrow>
              w' = setupResponse [] @ [invalid_code (StatusCode resp)] \<and>
              sent_status w' = None \<and> payloads w' = [] \<and> written w' = []))"
    if post: "Post url ctype body (Inr resp) \<in> set tr" for url ctype body resp
  proof -
    note rs = remote_status_run [OF run post]
    have fin: "sent_status w' = Some (StatusCode resp) \<and>
        payloads w' = [JObject [(''reason'', JString ''darkflow returned error'')]] \<and>
        written w' =
          (if bodyAllowedForStatus (StatusCode resp) \<and>
              w_Write e (setupResponse [] @ [WriteHeader (StatusCode resp)])
                (JObject [(''reason'', JString ''darkflow returned error'')]) = None
           then [JObject [(''reason'', JString ''darkflow returned error'')]]
           else [])"
      if "StatusCode resp \<noteq> 200"
        and "(StatusCode resp = 101 \<or> 200 \<le> StatusCode resp) \<and> StatusCode resp \<le> 999"
    proof -
      from that have range: "100 \<le> StatusCode resp" "StatusCode resp \<le> 999"
        by auto
      from rs that have "w' = jsonResponse e [] (StatusCode resp)
          (JObject [(''reason'', JString ''darkflow returned error'')])"
        by (simp add: jsonError_def)
      with range show ?thesis
        by (simp add: sent_status_jsonResponse written_jsonResponse payloads_jsonResponse)
    qed
    have inv: "w' = setupResponse [] @ [invalid_code (StatusCode resp)] \<and>
        sent_status w' = None \<and> payloads w' = [] \<and> written w' = []"
      if "StatusCode resp \<noteq> 200" and "StatusCode resp < 100 \<or> 999 < StatusCode resp"
    proof -
      from rs that have "w' = jsonResponse e [] (StatusCode resp)
          (JObject [(''reason'', JString ''darkflow returned error'')])"
        by (simp add: jsonError_def)
      with jsonResponse_invalid [OF that(2)] show ?thesis
        by (simp add: sent_status_def setupResponse_def invalid_code_def)
    qed
    show ?thesis
    proof (cases "StatusCode resp = 200")
      case True
      with rs show ?thesis
        by simp
    next
      case False
      with rs have l: "readdirs tr = []" "last tr = Post url ctype body (Inr resp)"
        "w' = jsonError e [] (StatusCode resp) ''darkflow returned error''"
        by simp_all
      from False l(1,2,3) show ?thesis
        by (intro conjI impI fin [THEN conjunct1] fin [THEN conjunct2, THEN conjunct1]
            fin [THEN conjunct2, THEN conjunct2] inv [THEN conjunct1]
            inv [THEN conjunct2, THEN conjunct1]
            inv [THEN conjunct2, THEN conjunct2, THEN conjunct1]
            inv [THEN conjunct2, THEN conjunct2, THEN conjunct2]) simp_all
    qed
  qed
  with run show ?thesis
    by blast
qed

theorem remote_status_is_propagated_witness:
  "recognize env_accepted [] req_two = Some (w_accepted, tr_accepted) \<and>
   Post ''http://darkflow:8000'' ''application/json''
     (JObject [(''input_dir'', JString ''/input/deadbeef''),
               (''output_dir'', JString ''/output/deadbeef'')])
     (Inr \<lparr>StatusCode = 202, Body = ''queued''\<rparr>) \<in> set tr_accepted \<and>
   StatusCode \<lparr>StatusCode = 202, Body = ''queued''\<rparr> \<noteq> 200 \<and>
   200 \<le> StatusCode \<lparr>StatusCode = 202, Body = ''queued''\<rparr> \<and>
   StatusCode \<lparr>StatusCode = 202, Body = ''queued''\<rparr> \<le> 999 \<and>
   readdirs tr_accepted = [] \<and>
   sent_status w_accepted = Some 202 \<and>
   written w_accepted = [JObject [(''reason'', JString ''darkflow returned error'')]] \<and>
   recognize env_badcode [] req_two = Some (w_badcode, tr_badcode) \<and>
   Post ''http://darkflow:8000'' ''application/json''
     (JObject [(''input_dir'', JString ''/input/deadbeef''),
               (''output_dir'', JString ''/output/deadbeef'')])
     (Inr \<lparr>StatusCode = 99, Body = []\<rparr>) \<in> set tr_badcode \<and>
   StatusCode \<lparr>StatusCode = 99, Body = []\<rparr> < 100 \<and>
   w_badcode = setupResponse [] @ [invalid_code 99] \<and>
   sent_status w_badcode = None \<and> written w_badcode = []"
proof -
  let ?reason = "JObject [(''reason'', JString ''darkflow returned error'')]"
  let ?body = "JObject [(''input_dir'', JString ''/input/deadbeef''),
               (''output_dir'', JString ''/output/deadbeef'')]"
  have p: "Post ''http://darkflow:8000'' ''application/json'' ?body
     (Inr \<lparr>StatusCode = 202, Body = ''queued''\<rparr>) \<in> set tr_accepted"
    by (simp add: tr_accepted_def)
  have q: "Post ''http://darkflow:8000'' ''application/json'' ?body
     (Inr \<lparr>StatusCode = 99, Body = []\<rparr>) \<in> set tr_badcode"
    by (simp add: tr_badcode_def)
  have s: "StatusCode \<lparr>StatusCode = 202, Body = ''queued''\<rparr> \<noteq> 200"
    "200 \<le> StatusCode \<lparr>StatusCode = 202, Body = ''queued''\<rparr>"
    "StatusCode \<lparr>StatusCode = 202, Body = ''queued''\<rparr> \<le> 999"
    "StatusCode \<lparr>StatusCode = 99, Body = []\<rparr> < 100"
    by simp_all
  have b: "bodyAllowedForStatus 202"
    "w_Write env_accepted (setupResponse [] @ [WriteHeader 202]) ?reason = None"
    by (simp_all add: bodyAllowedForStatus_def env_accepted_def env_demo_def)
  from remote_status_is_propagated [of env_accepted req_two] run_accepted
  have "\<forall>url ctype body resp. Post url ctype body (Inr resp) \<in> set tr_accepted \<longrightarrow>
      (readdirs tr_accepted \<noteq> [] \<longleftrightarrow> StatusCode resp = 200) \<and>
      (StatusCode resp \<noteq> 200 \<longrightarrow>
         ((StatusCode resp = 101 \<or> 200 \<le> StatusCode resp) \<and> StatusCode resp \<le> 999 \<longrightarrow>
            sent_status w_accepted = Some (StatusCode resp) \<and>
            written w_accepted =
              (if bodyAllowedForStatus (StatusCode resp) \<and>
                  w_Write env_accepted (setupResponse [] @ [WriteHeader (StatusCode resp)]) ?reason = None
               then [?reason] else [])))"
    by auto
  from this [rule_format, OF p] b
  have a: "readdirs tr_accepted = []" "sent_status w_accepted = Some 202"
    "written w_accepted = [?reason]"
    by simp_all
  from remote_status_is_propagated [of env_badcode req_two] run_badcode
  have "\<forall>url ctype body resp. Post url ctype body (Inr resp) \<in> set tr_badcode \<longrightarrow>
      (StatusCode resp \<noteq> 200 \<longrightarrow>
         (StatusCode resp < 100 \<or> 999 < StatusCode resp \<longrightarrow>
            w_badcode = setupResponse [] @ [invalid_code (StatusCode resp)] \<and>
            sent_status w_badcode = None \<and> written w_badcode = []))"
    by auto
  from this [rule_format, OF q]
  have c: "w_badcode = setupResponse [] @ [invalid_code 99]" "sent_status w_badcode = None"
    "written w_badcode = []"
    by simp_all
  from run_accepted p s a run_badcode q c show ?thesis
    by blast
qed

theorem remote_status_not_received_counterexample:
  "recognize env_nocontent [] req_two = Some (w_nocontent, tr_nocontent) \<and>
   last tr_nocontent =
     Post ''http://darkflow:8000'' ''application/json''
       (JObject [(''input_dir'', JString ''/input/deadbeef''),
                 (''output_dir'', JString ''/output/deadbeef'')])
       (Inr \<lparr>StatusCode = 204, Body = []\<rparr>) \<and>
   sent_status w_nocontent = Some 204 \<and>
   written w_nocontent = [] \<and>
   recognize env_badcode [] req_two = Some (w_badcode, tr_badcode) \<and>
   last tr_badcode =
     Post ''http://darkflow:8000'' ''application/json''
       (JObject [(''input_dir'', JString ''/input/deadbeef''),
                 (''output_dir'', JString ''/output/deadbeef'')])
       (Inr \<lparr>StatusCode = 99, Body = []\<rparr>) \<and>
   last w_badcode = Panic ''invalid WriteHeader code 99'' \<and>
   sent_status w_badcode = None \<and>
   written w_badcode = []"
  by code_simp



text \<open>
  C6. A run posts at most once, and what it posts goes to the configured URL with content
  type \<open>application/json\<close> and is the object of the two fields \<open>input_dir\<close> and
  \<open>output_dir\<close>, holding the job's input and output directory. It does post once every
  image of the request has been saved.
\<close>

theorem recognition_request_shape:
  assumes dec: "json_Decode e (ReqBody r) = (derr, req)"
    and gid: "generateID e [] 8 = Some (id', tr0)"
  shows "\<exists>w' tr. recognize e [] r = Some (w', tr) \<and>
           (posts tr = [] \<or>
            posts tr =
              [(darkflowURL e, ''application/json'',
                JObject [(''input_dir'', JString (filepath_Join e [inputDir e, id'])),
                         (''output_dir'', JString (filepath_Join e [outputDir e, id']))])]) \<and>
           (ImageURLs req \<noteq> [] \<and> length (saved tr) = length (ImageURLs req) \<longrightarrow>
            posts tr =
              [(darkflowURL e, ''application/json'',
                JObject [(''input_dir'', JString (filepath_Join e [inputDir e, id'])),
                         (''output_dir'', JString (filepath_Join e [outputDir e, id']))])])"
proof -
  obtain w' tr where run: "recognize e [] r = Some (w', tr)"
    using recognize_returns by blast
  with recognition_request_shape_run [OF run dec gid] show ?thesis
    by blast
qed

theorem recognition_request_shape_witness:
  "json_Decode env_demo (ReqBody req_two) =
     (None, \<lparr>ImageURLs = [''http://a/cat.png'', ''http://a/missing'']\<rparr>) \<and>
   generateID env_demo [] 8 = Some (''deadbeef'', [RandRead 4 None]) \<and>
   recognize env_demo [] req_two = Some (w_two, tr_two) \<and>
   ImageURLs \<lparr>ImageURLs = [''http://a/cat.png'', ''http://a/missing'']\<rparr> \<noteq> [] \<and>
   length (saved tr_two) = length (ImageURLs \<lparr>ImageURLs = [''http://a/cat.png'', ''http://a/missing'']\<rparr>) \<and>
   posts tr_two =
     [(''http://darkflow:8000'', ''application/json'',
       JObject [(''input_dir'', JString ''/input/deadbeef''),
                (''output_dir'', JString ''/output/deadbeef'')])] \<and>
   posts tr_two =
     [(darkflowURL env_demo, ''application/json'',
       JObject [(''input_dir'', JString (filepath_Join env_demo [inputDir env_demo, ''deadbeef''])),
                (''output_dir'', JString (filepath_Join env_demo [outputDir env_demo, ''deadbeef'']))])]"
  (is "_ \<and> _ \<and> _ \<and> _ \<and> _ \<and> _ \<and> ?posted")
proof -
  have u: "ImageURLs \<lparr>ImageURLs = [''http://a/cat.png'', ''http://a/missing'']\<rparr> \<noteq> []"
    by simp
  have l: "length (saved tr_two) =
      length (ImageURLs \<lparr>ImageURLs = [''http://a/cat.png'', ''http://a/missing'']\<rparr>)"
    by (simp add: tr_two_def)
  have p: "posts tr_two =
     [(''http://darkflow:8000'', ''application/json'',
       JObject [(''input_dir'', JString ''/input/deadbeef''),
                (''output_dir'', JString ''/output/deadbeef'')])]"
    by (simp add: tr_two_def)
  from recognition_request_shape [OF decode_two gen_demo] run_two u l have ?posted
    by auto
  with decode_two gen_demo run_two u l p show ?thesis
    by blast
qed




text \<open>
  C8, as amended. A run asks for the creation of at most one directory, the job's input
  directory. Hence the output directory is not created by the handler whenever its path
  differs from that of the input directory. When both flags name the same directory the
  two paths coincide and the handler's one \<open>os.Mkdir\<close> creates the very directory it later
  hands to the recognition service as output directory: the second theorem below is that
  run.
\<close>

theorem only_the_input_directory_is_created:
  assumes gid: "generateID e [] 8 = Some (id', tr0)"
  shows "\<exists>w' tr. recognize e [] r = Some (w', tr) \<and>
           (mkdirs tr = [] \<or> mkdirs tr = [filepath_Join e [inputDir e, id']]) \<and>
           (filepath_Join e [outputDir e, id'] \<noteq> filepath_Join e [inputDir e, id'] \<longrightarrow>
            filepath_Join e [outputDir e, id'] \<notin> set (mkdirs tr))"
proof -
  obtain w' tr where run: "recognize e [] r = Some (w', tr)"
    using recognize_returns by blast
  with only_the_input_directory_is_created_run [OF run gid] show ?thesis
    by blast
qed

theorem only_the_input_directory_is_created_witness:
  "generateID env_demo [] 8 = Some (''deadbeef'', [RandRead 4 None]) \<and>
   recognize env_demo [] req_two = Some (w_two, tr_two) \<and>
   filepath_Join env_demo [outputDir env_demo, ''deadbeef''] \<noteq>
     filepath_Join env_demo [inputDir env_demo, ''deadbeef''] \<and>
   mkdirs tr_two = [''/input/deadbeef''] \<and>
   filepath_Join env_demo [outputDir env_demo, ''deadbeef''] \<notin> set (mkdirs tr_two)"
  (is "_ \<and> _ \<and> _ \<and> _ \<and> ?untouched")
proof -
  have d: "filepath_Join env_demo [outputDir env_demo, ''deadbeef''] \<noteq>
      filepath_Join env_demo [inputDir env_demo, ''deadbeef'']"
    by (simp add: env_demo_def)
  have m: "mkdirs tr_two = [''/input/deadbeef'']"
    by (simp add: tr_two_def)
  from only_the_input_directory_is_created [OF gen_demo, of req_two] run_two d have ?untouched
    by auto
  with gen_demo run_two d m show ?thesis
    by blast
qed

theorem output_directory_created_counterexample:
  "map_option fst (generateID env_same [] 8) = Some ''deadbeef'' \<and>
   map_option (hd \<circ> tl \<circ> snd) (recognize env_same [] req_two) =
     Some (Mkdir (filepath_Join env_same [outputDir env_same, ''deadbeef'']) None)"
  by code_simp




text \<open>
  C10. The fetcher reports success exactly when the GET was answered, the destination file
  was created and the copy went through; the status code of the answer is never looked at.
  On success the file received the body of the answer, whatever its status.
\<close>

theorem wget_succeeds_on_any_response:
  "(fst (wget e from to tr) = None \<longleftrightarrow>
      (\<exists>response. client_Get e tr from = Inr response \<and>
         os_Create e (tr @ [Get from (Inr response)]) to = None \<and>
         io_Copy e (tr @ [Get from (Inr response), Create to None]) to (Body response) = None)) \<and>
   (\<forall>response. client_Get e tr from = Inr response \<and> fst (wget e from to tr) = None \<longrightarrow>
      snd (wget e from to tr) =
        tr @ [Get from (Inr response), Create to None, Copy to (Body response) None])"
  by (auto simp: wget_def Let_def split: sum.splits option.splits prod.splits)

theorem wget_succeeds_on_any_response_witness:
  "client_Get env_demo [] ''http://a/missing'' = Inr \<lparr>StatusCode = 404, Body = ''not found''\<rparr> \<and>
   fst (wget env_demo ''http://a/missing'' ''/input/deadbeef/1.jpg'' []) = None \<and>
   snd (wget env_demo ''http://a/missing'' ''/input/deadbeef/1.jpg'' []) =
     [Get ''http://a/missing'' (Inr \<lparr>StatusCode = 404, Body = ''not found''\<rparr>),
      Create ''/input/deadbeef/1.jpg'' None,
      Copy ''/input/deadbeef/1.jpg'' ''not found'' None]"
proof -
  have g: "client_Get env_demo [] ''http://a/missing'' = Inr \<lparr>StatusCode = 404, Body = ''not found''\<rparr>"
    by (simp add: env_demo_def get_demo_def)
  have c: "os_Create env_demo ([] @ [Get ''http://a/missing'' (Inr \<lparr>StatusCode = 404, Body = ''not found''\<rparr>)])
             ''/input/deadbeef/1.jpg'' = None"
    by (simp add: env_demo_def)
  have i: "io_Copy env_demo
             ([] @ [Get ''http://a/missing'' (Inr \<lparr>StatusCode = 404, Body = ''not found''\<rparr>),
                    Create ''/input/deadbeef/1.jpg'' None])
             ''/input/deadbeef/1.jpg'' (Body \<lparr>StatusCode = 404, Body = ''not found''\<rparr>) = None"
    by (simp add: env_demo_def)
  from wget_succeeds_on_any_response
    [of env_demo "''http://a/missing''" "''/input/deadbeef/1.jpg''" "[]"] g c i
  show ?thesis by auto
qed

end
